theory Spec2Isabelle
  imports Complex_Main "HOL-Library.Sublist"
begin

section \<open>JavaScript values used by the study assistant\<close>

text \<open>
  A thrown value. The code only ever looks at \<open>e?.message\<close>, which is a string or
  absent; a thrown value whose \<open>message\<close> is neither is outside this model.
\<close>

datatype js_error = JsError (message: "string option")

text \<open>
  \<open>String.prototype.includes\<close>: the pattern occurs as a contiguous run of the
  string. Strings are modelled as character lists; the patterns the code searches for
  are ASCII.
\<close>

fun js_includes :: "string \<Rightarrow> string \<Rightarrow> bool" where
  "js_includes [] p = (p = [])"
| "js_includes (c # cs) p = (prefix p (c # cs) \<or> js_includes cs p)"

text \<open>
  White space as \<open>trim\<close> and \<open>parseInt\<close> see it, restricted to the ASCII characters:
  tab, line feed, vertical tab, form feed, carriage return and space.
\<close>

definition is_white_space :: "char \<Rightarrow> bool" where
  "is_white_space c \<longleftrightarrow> (of_char c :: int) \<in> {9, 10, 11, 12, 13, 32}"

text \<open>\<open>String.prototype.trim\<close>.\<close>

definition js_trim :: "string \<Rightarrow> string" where
  "js_trim s = rev (dropWhile is_white_space (rev (dropWhile is_white_space s)))"

text \<open>
  The decimal digits of a non-negative integer, and \<open>Number.prototype.toString\<close> on an
  integer (the template literals and \<open>Date.now().toString()\<close> format integers below
  \<open>10 ^ 21\<close>, which print in full).
\<close>

definition digit_char :: "int \<Rightarrow> char" where
  "digit_char d = char_of (48 + d)"

function digits_of :: "int \<Rightarrow> string" where
  "digits_of n =
     (if n < 10 then [digit_char n] else digits_of (n div 10) @ [digit_char (n mod 10)])"
  by pat_completeness auto
termination
  by (relation "measure nat") auto

declare digits_of.simps [simp del]

definition Number_toString :: "int \<Rightarrow> string" where
  "Number_toString n = (if n < 0 then CHR ''-'' # digits_of (- n) else digits_of n)"

text \<open>
  \<open>parseInt\<close> with no radix argument: leading white space is skipped, a sign is read,
  a prefix \<open>0x\<close> or \<open>0X\<close> selects radix 16, and the longest run of digits of the radix
  is the value; no digit at all gives \<open>NaN\<close>, which is \<open>None\<close> here. The value is the
  exact integer (a double holds it exactly below \<open>2 ^ 53\<close>).
\<close>

definition digit_of :: "char \<Rightarrow> int option" where
  "digit_of c =
     (let n = (of_char c :: int) in
      if 48 \<le> n \<and> n \<le> 57 then Some (n - 48)
      else if 97 \<le> n \<and> n \<le> 102 then Some (n - 87)
      else if 65 \<le> n \<and> n \<le> 70 then Some (n - 55)
      else None)"

definition is_digit_of_radix :: "int \<Rightarrow> char \<Rightarrow> bool" where
  "is_digit_of_radix R c = (case digit_of c of None \<Rightarrow> False | Some d \<Rightarrow> d < R)"

definition digits_value :: "int \<Rightarrow> string \<Rightarrow> int" where
  "digits_value R Z =
     foldl (\<lambda>acc c. acc * R + (case digit_of c of None \<Rightarrow> 0 | Some d \<Rightarrow> d)) 0 Z"

definition parseInt :: "string \<Rightarrow> int option" where
  "parseInt inputString =
     (let S = dropWhile is_white_space inputString;
          sign = (case S of c # _ \<Rightarrow> if c = CHR ''-'' then - 1 else 1 | [] \<Rightarrow> (1::int));
          S1 = (case S of c # r \<Rightarrow> if c = CHR ''-'' \<or> c = CHR ''+'' then r else S | [] \<Rightarrow> S);
          hex = (case S1 of c # x # _ \<Rightarrow> c = CHR ''0'' \<and> (x = CHR ''x'' \<or> x = CHR ''X'') | _ \<Rightarrow> False);
          R = (if hex then 16 else 10);
          S2 = (if hex then drop 2 S1 else S1);
          Z = takeWhile (is_digit_of_radix R) S2
      in if Z = [] then None else Some (sign * digits_value R Z))"

section \<open>JSON values\<close>

text \<open>
  What \<open>JSON.parse\<close> returns and \<open>JSON.stringify\<close> accepts. Numbers are restricted to
  integers; an object is the list of its properties in order.
\<close>

datatype json =
  JNull
  | JBool bool
  | JNum int
  | JStr string
  | JArr "json list"
  | JObj "(string \<times> json) list"

text \<open>
  JavaScript's truthiness (\<open>ToBoolean\<close>) of such a value: \<open>null\<close>, \<open>false\<close>, \<open>0\<close>
  and the empty string are falsy, every array and every object is truthy.
\<close>

fun truthy :: "json \<Rightarrow> bool" where
  "truthy JNull = False"
| "truthy (JBool b) = b"
| "truthy (JNum n) = (n \<noteq> 0)"
| "truthy (JStr s) = (s \<noteq> [])"
| "truthy (JArr xs) = True"
| "truthy (JObj ps) = True"

section \<open>The retry wrapper of the AI client (src/unnamed/part_000, lines 23-40)\<close>

text \<open>
  \<open>e?.message?.includes('429') || e?.message?.includes('RESOURCE_EXHAUSTED')\<close>:
  an absent message makes both disjuncts \<open>undefined\<close>, which is falsy.
\<close>

definition isQuotaError :: "js_error \<Rightarrow> bool" where
  "isQuotaError e =
     (case message e of
        None \<Rightarrow> False
      | Some m \<Rightarrow> js_includes m ''429'' \<or> js_includes m ''RESOURCE_EXHAUSTED'')"

text \<open>
  What one run of \<open>retryWithBackoff\<close> did: the value it resolved with or the error it
  rejected with, the state its callee left behind, the outcome of every call of \<open>fn\<close>
  in order, and the delay of every \<open>setTimeout\<close> it awaited, in order.
\<close>

record ('a, 's) retry_run =
  result :: "js_error + 'a"
  final :: 's
  attempts :: "(js_error + 'a) list"
  waits :: "nat list"

text \<open>
  The callee \<open>fn\<close> is an async function with effects: a function from the state it
  sees to its outcome (\<open>Inl\<close> a rejection, \<open>Inr\<close> a value) and the state it leaves.
  Every call is taken to settle. \<open>maxRetries\<close> is a JavaScript number, modelled here as an
  integer; \<open>delay\<close> doubles exactly (a double holds \<open>2000 * 2 ^ k\<close> exactly for every
  reachable \<open>k\<close>).

  The loop \<open>for (let i = 0; i < maxRetries; i++)\<close>, entered at counter \<open>i\<close> with the
  current \<open>delay\<close>. The branch taken when the loop condition fails is the trailing
  \<open>return fn()\<close>.
\<close>

function retryWithBackoff_loop ::
  "('s \<Rightarrow> (js_error + 'a) \<times> 's) \<Rightarrow> int \<Rightarrow> int \<Rightarrow> nat \<Rightarrow> 's \<Rightarrow> ('a, 's) retry_run" where
  "retryWithBackoff_loop fn maxRetries i delay s =
     (if i < maxRetries then
        (case fn s of
           (Inr v, s') \<Rightarrow>
             \<lparr>result = Inr v, final = s', attempts = [Inr v], waits = []\<rparr>
         | (Inl e, s') \<Rightarrow>
             (if isQuotaError e \<and> i < maxRetries - 1 then
                (let r = retryWithBackoff_loop fn maxRetries (i + 1) (delay * 2) s'
                 in r\<lparr>attempts := Inl e # attempts r, waits := delay # waits r\<rparr>)
              else \<lparr>result = Inl e, final = s', attempts = [Inl e], waits = []\<rparr>))
      else
        (case fn s of
           (r, s') \<Rightarrow> \<lparr>result = r, final = s', attempts = [r], waits = []\<rparr>))"
  by pat_completeness auto
termination
  by (relation "measure (\<lambda>(fn, maxRetries, i, delay, s). nat (maxRetries - i))") auto

declare retryWithBackoff_loop.simps [simp del]

definition retryWithBackoff ::
  "('s \<Rightarrow> (js_error + 'a) \<times> 's) \<Rightarrow> int \<Rightarrow> 's \<Rightarrow> ('a, 's) retry_run" where
  "retryWithBackoff fn maxRetries s = retryWithBackoff_loop fn maxRetries 0 2000 s"

text \<open>The outcomes of the first \<open>n\<close> successive calls of \<open>fn\<close> from state \<open>s\<close>.\<close>

fun fn_outcomes :: "('s \<Rightarrow> (js_error + 'a) \<times> 's) \<Rightarrow> 's \<Rightarrow> nat \<Rightarrow> (js_error + 'a) list" where
  "fn_outcomes fn s 0 = []"
| "fn_outcomes fn s (Suc n) = (case fn s of (r, s') \<Rightarrow> r # fn_outcomes fn s' n)"

text \<open>The delays of \<open>n\<close> successive retries: \<open>d, 2d, 4d, ...\<close>.\<close>

definition backoff_delays :: "nat \<Rightarrow> nat \<Rightarrow> nat list" where
  "backoff_delays d n = map (\<lambda>j. d * 2 ^ j) [0..<n]"

definition retryable :: "(js_error + 'a) \<Rightarrow> bool" where
  "retryable r = (case r of Inl e \<Rightarrow> isQuotaError e | Inr v \<Rightarrow> False)"

text \<open>
  What a run that started from state \<open>s\<close> with first delay \<open>d\<close> and \<open>budget\<close>
  iterations left must look like.
\<close>

definition retry_run_ok ::
  "('s \<Rightarrow> (js_error + 'a) \<times> 's) \<Rightarrow> 's \<Rightarrow> nat \<Rightarrow> int \<Rightarrow> ('a, 's) retry_run \<Rightarrow> bool" where
  "retry_run_ok fn s d budget r \<longleftrightarrow>
     attempts r \<noteq> []
     \<and> int (length (attempts r)) \<le> budget
     \<and> attempts r = fn_outcomes fn s (length (attempts r))
     \<and> result r = last (attempts r)
     \<and> list_all retryable (butlast (attempts r))
     \<and> waits r = backoff_delays d (length (attempts r) - 1)
     \<and> (retryable (last (attempts r)) \<longrightarrow> int (length (attempts r)) = budget)"

text \<open>
  A callee for concrete runs: the state counts its calls; the first \<open>k\<close> calls are
  rejected with the given message, later calls resolve with the call's number.
\<close>

definition reject_until :: "string \<Rightarrow> nat \<Rightarrow> nat \<Rightarrow> (js_error + nat) \<times> nat" where
  "reject_until msg k n = (if n < k then Inl (JsError (Some msg)) else Inr n, Suc n)"

section \<open>The records of the application (src/unnamed/part_002, lines 1-32)\<close>

text \<open>
  The TypeScript interfaces \<open>Lesson\<close>, \<open>Question\<close> and \<open>UserProgress\<close>. The fields
  \<open>id\<close> and \<open>type\<close> are named \<open>lesson_id\<close>, \<open>qid\<close> and \<open>qtype\<close> here. A
  question's \<open>type\<close> is declared \<open>'choice' | 'material'\<close>; the value comes from parsed
  JSON and the code only compares it with \<open>'choice'\<close>, so it is kept as a string.
  Lesson ids and scores are JavaScript numbers that hold integers; \<open>quizScores\<close> is an
  object used as a dictionary from lesson id to score.
\<close>

record lesson =
  lesson_id :: int
  title :: string
  period :: string
  content :: string
  keyConcepts :: "string list"

record question =
  qid :: string
  qtype :: string
  stem :: string
  options :: "string list option"
  answer :: string
  analysis :: string
  material :: "string option"
  hint :: "string option"

record userProgress =
  userId :: string
  userName :: string
  completedLessons :: "int list"
  quizScores :: "int \<rightharpoonup> int"
  wrongQuestions :: "question list"
  lastActive :: string

section \<open>Double-precision arithmetic of the score\<close>

text \<open>
  JavaScript numbers are IEEE 754 binary64 values, and \<open>/\<close> and \<open>*\<close> round the exact
  result to the nearest such value, ties to the even significand. The values are
  modelled as the rationals they denote. Only the normal range is modelled (no
  subnormals, no overflow): the score computes with values between \<open>1 / t\<close> and \<open>100\<close>.

  \<open>bit_length n\<close> is the number of binary digits of a positive integer, and
  \<open>ilog2 x\<close> the exponent \<open>e\<close> with \<open>2 ^ e \<le> x < 2 ^ (e + 1)\<close> for a positive \<open>x\<close>:
  the difference of the bit lengths of numerator and denominator is that exponent or
  exceeds it by one.
\<close>

function bit_length :: "int \<Rightarrow> int" where
  "bit_length n = (if n \<le> 0 then 0 else 1 + bit_length (n div 2))"
  by pat_completeness auto
termination
  by (relation "measure nat") auto

declare bit_length.simps [simp del]

definition ilog2 :: "rat \<Rightarrow> int" where
  "ilog2 x =
     (let (p, q) = quotient_of x; d = bit_length p - bit_length q
      in if power_int 2 d \<le> x then d else d - 1)"

definition round_ties_even :: "rat \<Rightarrow> int" where
  "round_ties_even y =
     (let f = \<lfloor>y\<rfloor>; r = y - of_int f
      in if r < 1 / 2 then f
         else if 1 / 2 < r then f + 1
         else if even f then f else f + 1)"

text \<open>The binary64 value nearest to a non-negative rational: 53 significant bits.\<close>

definition round_to_double :: "rat \<Rightarrow> rat" where
  "round_to_double x =
     (if x \<le> 0 then 0
      else let ulp = power_int 2 (ilog2 x - 52)
           in of_int (round_ties_even (x / ulp)) * ulp)"

definition double_div :: "rat \<Rightarrow> rat \<Rightarrow> rat" where
  "double_div a b = round_to_double (a / b)"

definition double_mul :: "rat \<Rightarrow> rat \<Rightarrow> rat" where
  "double_mul a b = round_to_double (a * b)"

text \<open>\<open>Math.round\<close>: the nearest integer, a tie going up.\<close>

definition Math_round :: "rat \<Rightarrow> int" where
  "Math_round x = \<lfloor>x + 1 / 2\<rfloor>"

section \<open>Scoring a quiz (src/unnamed/part_003, lines 113-161; part_002, lines 146-184)\<close>

text \<open>
  The body of \<open>questions.forEach\<close> in \<open>calculateScore\<close>, run over the questions in
  order on the three accumulators \<open>choiceCorrect\<close>, \<open>choiceTotal\<close> and
  \<open>currentWrong\<close>. \<open>userAnswers\<close> is an object used as a dictionary from question id
  to the chosen letter; an absent key reads as \<open>undefined\<close>, which is \<open>===\<close> to no
  string.
\<close>

fun forEach_question ::
  "(string \<rightharpoonup> string) \<Rightarrow> question list \<Rightarrow> nat \<times> nat \<times> question list \<Rightarrow> nat \<times> nat \<times> question list" where
  "forEach_question userAnswers [] acc = acc"
| "forEach_question userAnswers (q # qs) (choiceCorrect, choiceTotal, currentWrong) =
     (if qtype q = ''choice'' then
        (if userAnswers (qid q) = Some (answer q)
         then forEach_question userAnswers qs (choiceCorrect + 1, choiceTotal + 1, currentWrong)
         else forEach_question userAnswers qs (choiceCorrect, choiceTotal + 1, currentWrong @ [q]))
      else forEach_question userAnswers qs (choiceCorrect, choiceTotal, currentWrong @ [q]))"

text \<open>
  \<open>choiceTotal > 0 ? Math.round((choiceCorrect / choiceTotal) * 100) : 100\<close>. Both
  counters are array lengths, which doubles hold exactly.
\<close>

definition finalScore :: "nat \<Rightarrow> nat \<Rightarrow> int" where
  "finalScore choiceCorrect choiceTotal =
     (if 0 < choiceTotal
      then Math_round (double_mul (double_div (of_nat choiceCorrect) (of_nat choiceTotal)) 100)
      else 100)"

text \<open>
  The part of the React state that outlives a page load: the \<open>user\<close> state and the
  record serialised under the localStorage key \<open>history_user\<close>, held here as the
  record itself. \<open>saveUserProgress\<close> sets both.
\<close>

record session =
  user :: "userProgress option"
  history_user :: "userProgress option"

definition saveUserProgress :: "userProgress \<Rightarrow> session \<Rightarrow> session" where
  "saveUserProgress updated se = se\<lparr>user := Some updated, history_user := Some updated\<rparr>"

text \<open>\<open>user.quizScores[id] || 0\<close>: an absent entry and a stored zero both read as 0.\<close>

definition currentBest_of :: "int option \<Rightarrow> int" where
  "currentBest_of stored = (case stored of None \<Rightarrow> 0 | Some v \<Rightarrow> if v = 0 then 0 else v)"

text \<open>
  What a click on the submit button did: the value passed to \<open>setScore\<close>, the error
  thrown afterwards if any, and the session it left.
\<close>

record submit_result =
  score_set :: int
  thrown :: "js_error option"
  session_after :: session

text \<open>
  \<open>selectedLesson!.id\<close> on a \<open>null\<close> lesson is a TypeError; the message is the
  engine's.
\<close>

definition null_property_error :: js_error where
  "null_property_error = JsError (Some ''Cannot read properties of null'')"

text \<open>
  \<open>calculateScore\<close> of src/unnamed/part_003: the ids already on the wrong list are
  collected in a \<open>Set\<close>.
\<close>

definition calculateScore_003 ::
  "question list \<Rightarrow> (string \<rightharpoonup> string) \<Rightarrow> lesson option \<Rightarrow> session \<Rightarrow> submit_result" where
  "calculateScore_003 questions userAnswers selectedLesson se =
     (case forEach_question userAnswers questions (0, 0, []) of
        (choiceCorrect, choiceTotal, currentWrong) \<Rightarrow>
          (let score = finalScore choiceCorrect choiceTotal in
           case user se of
             None \<Rightarrow> \<lparr>score_set = score, thrown = None, session_after = se\<rparr>
           | Some u \<Rightarrow>
               (case selectedLesson of
                  None \<Rightarrow> \<lparr>score_set = score, thrown = Some null_property_error, session_after = se\<rparr>
                | Some l \<Rightarrow>
                    (let currentBest = currentBest_of (quizScores u (lesson_id l));
                         existingWrongIds = set (map qid (wrongQuestions u));
                         newlyAddedWrongs = filter (\<lambda>q. qid q \<notin> existingWrongIds) currentWrong
                     in \<lparr>score_set = score, thrown = None,
                         session_after = saveUserProgress
                           (u\<lparr>quizScores := (quizScores u)(lesson_id l \<mapsto> max currentBest score),
                              wrongQuestions := wrongQuestions u @ newlyAddedWrongs\<rparr>) se\<rparr>))))"

text \<open>
  \<open>calculateScore\<close> of src/unnamed/part_002: the wrong list is searched with
  \<open>find\<close>, whose result is an object (truthy) or \<open>undefined\<close>.
\<close>

definition calculateScore_002 ::
  "question list \<Rightarrow> (string \<rightharpoonup> string) \<Rightarrow> lesson option \<Rightarrow> session \<Rightarrow> submit_result" where
  "calculateScore_002 questions userAnswers selectedLesson se =
     (case forEach_question userAnswers questions (0, 0, []) of
        (choiceCorrect, choiceTotal, currentWrong) \<Rightarrow>
          (let score = finalScore choiceCorrect choiceTotal in
           case user se of
             None \<Rightarrow> \<lparr>score_set = score, thrown = None, session_after = se\<rparr>
           | Some u \<Rightarrow>
               (case selectedLesson of
                  None \<Rightarrow> \<lparr>score_set = score, thrown = Some null_property_error, session_after = se\<rparr>
                | Some l \<Rightarrow>
                    (let currentBest = currentBest_of (quizScores u (lesson_id l))
                     in \<lparr>score_set = score, thrown = None,
                         session_after = saveUserProgress
                           (u\<lparr>quizScores := (quizScores u)(lesson_id l \<mapsto> max currentBest score),
                              wrongQuestions := wrongQuestions u @
                                filter (\<lambda>q. find (\<lambda>wq. qid wq = qid q) (wrongQuestions u) = None)
                                  currentWrong\<rparr>) se\<rparr>))))"

text \<open>\<open>clearWrongQuestion\<close>, the same in both files.\<close>

definition clearWrongQuestion :: "string \<Rightarrow> session \<Rightarrow> session" where
  "clearWrongQuestion i se =
     (case user se of
        None \<Rightarrow> se
      | Some u \<Rightarrow>
          saveUserProgress (u\<lparr>wrongQuestions := filter (\<lambda>q. qid q \<noteq> i) (wrongQuestions u)\<rparr>) se)"

text \<open>
  The score as the specification words it, \<open>Math.round(100 * c / t)\<close>, and 100 for a
  quiz with no choice question: the product is taken first, then the quotient.
\<close>

definition score_as_specified :: "nat \<Rightarrow> nat \<Rightarrow> int" where
  "score_as_specified c t =
     (if t = 0 then 100
      else Math_round (double_div (double_mul 100 (of_nat c)) (of_nat t)))"

text \<open>
  A run of submissions, each with its own quiz, answers and selected lesson, by either
  version \<open>calc\<close> of \<open>calculateScore\<close>; and the score on record for a lesson, an absent
  entry read as 0.
\<close>

fun submit_all ::
  "(question list \<Rightarrow> (string \<rightharpoonup> string) \<Rightarrow> lesson option \<Rightarrow> session \<Rightarrow> submit_result)
   \<Rightarrow> (question list \<times> (string \<rightharpoonup> string) \<times> lesson option) list \<Rightarrow> session \<Rightarrow> session" where
  "submit_all calc [] se = se"
| "submit_all calc ((questions, userAnswers, selectedLesson) # rest) se =
     submit_all calc rest (session_after (calc questions userAnswers selectedLesson se))"

definition recorded_score :: "session \<Rightarrow> int \<Rightarrow> int" where
  "recorded_score se k = (case user se of None \<Rightarrow> 0 | Some u \<Rightarrow> currentBest_of (quizScores u k))"

section \<open>The platform and the world the AI client runs in\<close>

text \<open>
  The answer of the generative-AI service to one \<open>generateContent\<close> request, as far
  as the client reads it: \<open>response.text\<close>, and the grounding chunks
  \<open>response.candidates?.[0]?.groundingMetadata?.groundingChunks\<close>, each with its
  \<open>web?.title\<close> and \<open>web?.uri\<close>. \<open>None\<close> is \<open>undefined\<close>.
\<close>

record response =
  response_text :: "string option"
  groundingChunks :: "(string option \<times> string option) list option"

text \<open>
  What the program takes from its environment and does not implement: \<open>JSON.parse\<close>
  (\<open>Inl\<close> is the SyntaxError it throws), \<open>JSON.stringify\<close>, and the service, given as
  the outcome of the request with a given number, counted from 0 in the order of issue
  (\<open>Inl\<close> is a rejected promise). The text of a request is fixed by the arguments of
  the call and is not modelled.
\<close>

record platform =
  JSON_parse :: "string \<Rightarrow> js_error + json"
  JSON_stringify :: "json \<Rightarrow> string"
  generateContent :: "nat \<Rightarrow> js_error + response"

text \<open>
  What happens to a request: it is issued, and later it settles (the promise is
  resolved or rejected).
\<close>

datatype net_event = Issue nat | Settle nat

text \<open>
  The state outside the React component: \<open>localStorage\<close>, the number of requests
  issued so far, the requests issued and not yet settled, the largest number of
  requests that were unsettled at the same time, and the log of what happened to the
  requests, in order.
\<close>

record world =
  ls :: "string \<rightharpoonup> string"
  requests :: nat
  pending :: "nat list"
  peak :: nat
  events :: "net_event list"

definition issue_request :: "world \<Rightarrow> nat \<times> world" where
  "issue_request w =
     (requests w,
      w\<lparr>requests := Suc (requests w),
        pending := requests w # pending w,
        peak := max (peak w) (Suc (length (pending w))),
        events := events w @ [Issue (requests w)]\<rparr>)"

definition settle_request :: "nat \<Rightarrow> world \<Rightarrow> world" where
  "settle_request n w =
     w\<lparr>pending := removeAll n (pending w), events := events w @ [Settle n]\<rparr>"

text \<open>\<open>await ai.models.generateContent(...)\<close>: the request is issued and awaited.\<close>

definition await_generateContent :: "platform \<Rightarrow> world \<Rightarrow> (js_error + response) \<times> world" where
  "await_generateContent P w =
     (case issue_request w of (n, w1) \<Rightarrow> (generateContent P n, settle_request n w1))"

section \<open>The cache (src/unnamed/part_000, lines 13-20; part_001, lines 6-13)\<close>

text \<open>
  \<open>getCachedData\<close> and \<open>setCachedData\<close>, the same in both files. \<open>getItem\<close> gives
  \<open>null\<close> for an absent key; \<open>null\<close> and the empty string are falsy. The \<open>null\<close> that
  \<open>getCachedData\<close> returns is \<open>JNull\<close>.
\<close>

definition getCachedData :: "platform \<Rightarrow> world \<Rightarrow> string \<Rightarrow> js_error + json" where
  "getCachedData P w key =
     (case ls w (''cache_'' @ key) of
        None \<Rightarrow> Inr JNull
      | Some saved \<Rightarrow> if saved = [] then Inr JNull else JSON_parse P saved)"

definition setCachedData :: "platform \<Rightarrow> string \<Rightarrow> json \<Rightarrow> world \<Rightarrow> world" where
  "setCachedData P key data w = w\<lparr>ls := (ls w)(''cache_'' @ key \<mapsto> JSON_stringify P data)\<rparr>"

section \<open>The AI client without retries (src/unnamed/part_001)\<close>

text \<open>\<open>response.text || ''\<close>.\<close>

definition text_or_empty :: "response \<Rightarrow> string" where
  "text_or_empty r = (case response_text r of None \<Rightarrow> [] | Some t \<Rightarrow> t)"

text \<open>
  The statements after the request in \<open>generateQuestionsFromContent\<close>: the text is
  trimmed, parsed (\<open>'[]'\<close> standing in for an empty text), cached and returned.
\<close>

definition text_to_parse :: "response \<Rightarrow> string" where
  "text_to_parse r = (let jsonStr = js_trim (text_or_empty r) in if jsonStr = [] then ''[]'' else jsonStr)"

definition questions_of_response ::
  "platform \<Rightarrow> string \<Rightarrow> response \<Rightarrow> world \<Rightarrow> (js_error + json) \<times> world" where
  "questions_of_response P cacheKey r w =
     (case JSON_parse P (text_to_parse r) of
        Inl e \<Rightarrow> (Inl e, w)
      | Inr data \<Rightarrow> (Inr data, setCachedData P cacheKey data w))"

text \<open>
  How far an async function gets before it first has to wait: it has returned (or
  thrown), or it is suspended on the request it has just issued.
\<close>

datatype 'a progress = Returned "js_error + 'a" | Suspended nat

text \<open>
  \<open>generateQuestionsFromContent\<close> of part_001 up to its \<open>await\<close>: the cache is read
  unless \<open>forceNew\<close>, and a truthy cached value is returned; otherwise the request is
  issued. \<open>contentText\<close> (the lesson content) only shapes the text of the request.
\<close>

definition generateQuestionsFromContent_001_begin ::
  "platform \<Rightarrow> world \<Rightarrow> int \<Rightarrow> string \<Rightarrow> bool \<Rightarrow> json progress \<times> world" where
  "generateQuestionsFromContent_001_begin P w lessonId contentText forceNew =
     (let cacheKey = ''questions_lesson_'' @ Number_toString lessonId;
          request = (case issue_request w of (n, w1) \<Rightarrow> (Suspended n, w1))
      in if \<not> forceNew then
           (case getCachedData P w cacheKey of
              Inl e \<Rightarrow> (Returned (Inl e), w)
            | Inr cached \<Rightarrow> if truthy cached then (Returned (Inr cached), w) else request)
         else request)"

text \<open>
  The rest of it, once request \<open>n\<close> has settled: everything is inside \<open>try\<close>, and the
  \<open>catch\<close> logs the error and returns the empty array.
\<close>

definition generateQuestionsFromContent_001_resume ::
  "platform \<Rightarrow> int \<Rightarrow> nat \<Rightarrow> world \<Rightarrow> (js_error + json) \<times> world" where
  "generateQuestionsFromContent_001_resume P lessonId n w =
     (let cacheKey = ''questions_lesson_'' @ Number_toString lessonId;
          w1 = settle_request n w
      in case generateContent P n of
           Inl e \<Rightarrow> (Inr (JArr []), w1)
         | Inr r \<Rightarrow>
             (case questions_of_response P cacheKey r w1 of
                (Inl e, w2) \<Rightarrow> (Inr (JArr []), w2)
              | (Inr data, w2) \<Rightarrow> (Inr data, w2)))"

definition generateQuestionsFromContent_001 ::
  "platform \<Rightarrow> world \<Rightarrow> int \<Rightarrow> string \<Rightarrow> bool \<Rightarrow> (js_error + json) \<times> world" where
  "generateQuestionsFromContent_001 P w lessonId contentText forceNew =
     (case generateQuestionsFromContent_001_begin P w lessonId contentText forceNew of
        (Returned r, w1) \<Rightarrow> (r, w1)
      | (Suspended n, w1) \<Rightarrow> generateQuestionsFromContent_001_resume P lessonId n w1)"

text \<open>
  \<open>generateStudyMindmap\<close> of part_001, in the same two parts. Nothing catches a
  rejected request here.
\<close>

definition generateStudyMindmap_001_begin ::
  "platform \<Rightarrow> world \<Rightarrow> int \<Rightarrow> string \<Rightarrow> json progress \<times> world" where
  "generateStudyMindmap_001_begin P w lessonId contentText =
     (let cacheKey = ''mindmap_lesson_'' @ Number_toString lessonId in
      case getCachedData P w cacheKey of
        Inl e \<Rightarrow> (Returned (Inl e), w)
      | Inr cached \<Rightarrow>
          if truthy cached then (Returned (Inr cached), w)
          else (case issue_request w of (n, w1) \<Rightarrow> (Suspended n, w1)))"

definition generateStudyMindmap_001_resume ::
  "platform \<Rightarrow> int \<Rightarrow> nat \<Rightarrow> world \<Rightarrow> (js_error + json) \<times> world" where
  "generateStudyMindmap_001_resume P lessonId n w =
     (let cacheKey = ''mindmap_lesson_'' @ Number_toString lessonId;
          w1 = settle_request n w
      in case generateContent P n of
           Inl e \<Rightarrow> (Inl e, w1)
         | Inr r \<Rightarrow>
             (let result = JStr (text_or_empty r)
              in (Inr result, setCachedData P cacheKey result w1)))"

definition generateStudyMindmap_001 ::
  "platform \<Rightarrow> world \<Rightarrow> int \<Rightarrow> string \<Rightarrow> (js_error + json) \<times> world" where
  "generateStudyMindmap_001 P w lessonId contentText =
     (case generateStudyMindmap_001_begin P w lessonId contentText of
        (Returned r, w1) \<Rightarrow> (r, w1)
      | (Suspended n, w1) \<Rightarrow> generateStudyMindmap_001_resume P lessonId n w1)"

text \<open>
  The object \<open>{text, links}\<close> built from a search response: the chunks whose title
  and uri are both truthy, \<open>[]\<close> when there are no chunks.
\<close>

definition link_of_chunk :: "string option \<times> string option \<Rightarrow> json option" where
  "link_of_chunk c =
     (case c of
        (Some t, Some u) \<Rightarrow>
          if t \<noteq> [] \<and> u \<noteq> [] then Some (JObj [(''title'', JStr t), (''uri'', JStr u)]) else None
      | _ \<Rightarrow> None)"

definition trends_of_response :: "response \<Rightarrow> json" where
  "trends_of_response r =
     JObj [(''text'', JStr (text_or_empty r)),
           (''links'', JArr (case groundingChunks r of
                               None \<Rightarrow> []
                             | Some cs \<Rightarrow> List.map_filter link_of_chunk cs))]"

text \<open>
  \<open>lastUpdate && (Date.now() - parseInt(lastUpdate)) < 3600000\<close>, where
  \<open>lastUpdate\<close> is the text under \<open>trends_timestamp\<close> and \<open>now\<close> is what
  \<open>Date.now()\<close> returns. A comparison with \<open>NaN\<close> is false.
\<close>

definition timestamp_fresh :: "world \<Rightarrow> int \<Rightarrow> bool" where
  "timestamp_fresh w now =
     (case ls w ''trends_timestamp'' of
        None \<Rightarrow> False
      | Some lastUpdate \<Rightarrow>
          lastUpdate \<noteq> [] \<and>
          (case parseInt lastUpdate of None \<Rightarrow> False | Some t \<Rightarrow> now - t < 3600000))"

text \<open>
  \<open>searchGuangzhouExamTrends\<close> of part_001. \<open>now\<close> is what \<open>Date.now()\<close> returns at
  the check and \<open>now_after\<close> what it returns once the response is in.
\<close>

definition searchGuangzhouExamTrends_001 ::
  "platform \<Rightarrow> int \<Rightarrow> int \<Rightarrow> world \<Rightarrow> (js_error + json) \<times> world" where
  "searchGuangzhouExamTrends_001 P now now_after w =
     (case getCachedData P w ''exam_trends'' of
        Inl e \<Rightarrow> (Inl e, w)
      | Inr cached \<Rightarrow>
          if truthy cached \<and> timestamp_fresh w now then (Inr cached, w)
          else
            (case await_generateContent P w of
               (Inl e, w1) \<Rightarrow> (Inl e, w1)
             | (Inr r, w1) \<Rightarrow>
                 (let result = trends_of_response r;
                      w2 = setCachedData P ''exam_trends'' result w1;
                      w3 = w2\<lparr>ls := (ls w2)(''trends_timestamp'' \<mapsto> Number_toString now_after)\<rparr>
                  in (Inr result, w3))))"

section \<open>The AI client with retries (src/unnamed/part_000)\<close>

text \<open>
  The async closure that \<open>generateQuestionsFromContent\<close> hands to
  \<open>retryWithBackoff\<close>: one request, awaited; a rejection or a SyntaxError leaves the
  closure as a rejection.
\<close>

definition questions_attempt :: "platform \<Rightarrow> string \<Rightarrow> world \<Rightarrow> (js_error + json) \<times> world" where
  "questions_attempt P cacheKey w =
     (case await_generateContent P w of
        (Inl e, w1) \<Rightarrow> (Inl e, w1)
      | (Inr r, w1) \<Rightarrow> questions_of_response P cacheKey r w1)"

definition generateQuestionsFromContent_000 ::
  "platform \<Rightarrow> world \<Rightarrow> int \<Rightarrow> string \<Rightarrow> bool \<Rightarrow> (js_error + json) \<times> world" where
  "generateQuestionsFromContent_000 P w lessonId contentText forceNew =
     (let cacheKey = ''questions_lesson_'' @ Number_toString lessonId;
          generate = (let run = retryWithBackoff (questions_attempt P cacheKey) 2 w
                      in (result run, final run))
      in if \<not> forceNew then
           (case getCachedData P w cacheKey of
              Inl e \<Rightarrow> (Inl e, w)
            | Inr cached \<Rightarrow> if truthy cached then (Inr cached, w) else generate)
         else generate)"

definition mindmap_attempt :: "platform \<Rightarrow> string \<Rightarrow> world \<Rightarrow> (js_error + json) \<times> world" where
  "mindmap_attempt P cacheKey w =
     (case await_generateContent P w of
        (Inl e, w1) \<Rightarrow> (Inl e, w1)
      | (Inr r, w1) \<Rightarrow>
          (let result = JStr (text_or_empty r)
           in (Inr result, setCachedData P cacheKey result w1)))"

definition generateStudyMindmap_000 ::
  "platform \<Rightarrow> world \<Rightarrow> int \<Rightarrow> string \<Rightarrow> (js_error + json) \<times> world" where
  "generateStudyMindmap_000 P w lessonId contentText =
     (let cacheKey = ''mindmap_lesson_'' @ Number_toString lessonId in
      case getCachedData P w cacheKey of
        Inl e \<Rightarrow> (Inl e, w)
      | Inr cached \<Rightarrow>
          if truthy cached then (Inr cached, w)
          else (let run = retryWithBackoff (mindmap_attempt P cacheKey) 2 w
                in (result run, final run)))"

definition trends_attempt :: "platform \<Rightarrow> world \<Rightarrow> (js_error + json) \<times> world" where
  "trends_attempt P w =
     (case await_generateContent P w of
        (Inl e, w1) \<Rightarrow> (Inl e, w1)
      | (Inr r, w1) \<Rightarrow>
          (let result = trends_of_response r
           in (Inr result, setCachedData P ''exam_trends'' result w1)))"

definition searchGuangzhouExamTrends_000 :: "platform \<Rightarrow> world \<Rightarrow> (js_error + json) \<times> world" where
  "searchGuangzhouExamTrends_000 P w =
     (case getCachedData P w ''exam_trends'' of
        Inl e \<Rightarrow> (Inl e, w)
      | Inr cached \<Rightarrow>
          if truthy cached then (Inr cached, w)
          else (let run = retryWithBackoff (trends_attempt P) 2 w
                in (result run, final run)))"

text \<open>
  The two client functions of part_000 up to their first \<open>await\<close>: the cache is read
  as in part_001; on a miss \<open>retryWithBackoff\<close> enters its loop and calls the closure,
  which issues the first request and waits for it.
\<close>

definition generateQuestionsFromContent_000_begin ::
  "platform \<Rightarrow> world \<Rightarrow> int \<Rightarrow> string \<Rightarrow> bool \<Rightarrow> json progress \<times> world" where
  "generateQuestionsFromContent_000_begin P w lessonId contentText forceNew =
     (let cacheKey = ''questions_lesson_'' @ Number_toString lessonId;
          request = (case issue_request w of (n, w1) \<Rightarrow> (Suspended n, w1))
      in if \<not> forceNew then
           (case getCachedData P w cacheKey of
              Inl e \<Rightarrow> (Returned (Inl e), w)
            | Inr cached \<Rightarrow> if truthy cached then (Returned (Inr cached), w) else request)
         else request)"

definition generateStudyMindmap_000_begin ::
  "platform \<Rightarrow> world \<Rightarrow> int \<Rightarrow> string \<Rightarrow> json progress \<times> world" where
  "generateStudyMindmap_000_begin P w lessonId contentText =
     (let cacheKey = ''mindmap_lesson_'' @ Number_toString lessonId in
      case getCachedData P w cacheKey of
        Inl e \<Rightarrow> (Returned (Inl e), w)
      | Inr cached \<Rightarrow>
          if truthy cached then (Returned (Inr cached), w)
          else (case issue_request w of (n, w1) \<Rightarrow> (Suspended n, w1)))"

section \<open>The event handlers of the component (src/unnamed/part_002 and part_003)\<close>

text \<open>
  The module \<open>./services/geminiService\<close> as the component imports it: an App file
  runs with either version of the client.
\<close>

record service =
  generateQuestionsFromContent ::
    "world \<Rightarrow> int \<Rightarrow> string \<Rightarrow> bool \<Rightarrow> (js_error + json) \<times> world"
  generateStudyMindmap :: "world \<Rightarrow> int \<Rightarrow> string \<Rightarrow> (js_error + json) \<times> world"
  searchGuangzhouExamTrends :: "world \<Rightarrow> (js_error + json) \<times> world"

definition service_001 :: "platform \<Rightarrow> int \<Rightarrow> int \<Rightarrow> service" where
  "service_001 P now now_after =
     \<lparr>generateQuestionsFromContent = generateQuestionsFromContent_001 P,
      generateStudyMindmap = generateStudyMindmap_001 P,
      searchGuangzhouExamTrends = searchGuangzhouExamTrends_001 P now now_after\<rparr>"

definition service_000 :: "platform \<Rightarrow> service" where
  "service_000 P =
     \<lparr>generateQuestionsFromContent = generateQuestionsFromContent_000 P,
      generateStudyMindmap = generateStudyMindmap_000 P,
      searchGuangzhouExamTrends = searchGuangzhouExamTrends_000 P\<rparr>"

text \<open>
  The texts shown in the banner, which part_002 keeps in \<open>apiError\<close>: the outline
  cannot be loaded because of too many requests; the quiz quota is used up or requests
  are too frequent; generating the quiz ran into trouble; the search is too frequent.
\<close>

datatype banner =
  OutlineRateLimited
  | QuizRateLimited
  | QuizFailed
  | SearchRateLimited

text \<open>
  The state of the component. What the handlers get from \<open>JSON.parse\<close> and from the
  client is kept as the JSON value it is. \<open>prefetchQueue\<close> is the \<open>Set\<close> in the ref
  of part_003.
\<close>

record ui =
  sess :: session
  selectedLesson :: "lesson option"
  activeTab :: string
  reviewMode :: string
  mindmapContent :: json
  questions :: json
  loading :: bool
  apiError :: "banner option"
  trends :: json
  userAnswers :: "string \<rightharpoonup> string"
  score :: "int option"
  visibleHints :: "string \<rightharpoonup> bool"
  prefetchQueue :: "int set"

text \<open>\<open>err?.message?.includes('429')\<close>.\<close>

definition includes_429 :: "js_error \<Rightarrow> bool" where
  "includes_429 e = (case message e of None \<Rightarrow> False | Some m \<Rightarrow> js_includes m ''429'')"

text \<open>\<open>localStorage.getItem(key)\<close> as a condition: the text when there is a non-empty one.\<close>

definition truthy_item :: "world \<Rightarrow> string \<Rightarrow> string option" where
  "truthy_item w key = (case ls w key of None \<Rightarrow> None | Some s \<Rightarrow> if s = [] then None else Some s)"

text \<open>
  The last statement of \<open>handleReview\<close>: the lesson's id is appended to
  \<open>completedLessons\<close> when a user is logged in and the id is not in the list.
\<close>

definition markCompleted :: "lesson \<Rightarrow> session \<Rightarrow> session" where
  "markCompleted lesson se =
     (case user se of
        None \<Rightarrow> se
      | Some u \<Rightarrow>
          if lesson_id lesson \<in> set (completedLessons u) then se
          else saveUserProgress
                 (u\<lparr>completedLessons := completedLessons u @ [lesson_id lesson]\<rparr>) se)"

text \<open>
  A handler takes the state of the component and the world and returns the error that
  left it uncaught, if any, with the state and the world it leaves. An async handler is
  run to its end; \<open>user\<close> in it is the state of the render that created it.
  \<open>console.error\<close> is not modelled.

  \<open>handleReview\<close> of part_002.
\<close>

definition handleReview_002 ::
  "service \<Rightarrow> platform \<Rightarrow> lesson \<Rightarrow> ui \<times> world \<Rightarrow> js_error option \<times> ui \<times> world" where
  "handleReview_002 S P lesson = (\<lambda>(st, w).
     (let st1 = st\<lparr>selectedLesson := Some lesson, reviewMode := ''summary'', apiError := None\<rparr>
      in case truthy_item w (''cache_mindmap_lesson_'' @ Number_toString (lesson_id lesson)) of
           Some cachedMM \<Rightarrow>
             (case JSON_parse P cachedMM of
                Inl e \<Rightarrow> (Some e, st1, w)
              | Inr mm \<Rightarrow>
                  (None, st1\<lparr>mindmapContent := mm, sess := markCompleted lesson (sess st)\<rparr>, w))
         | None \<Rightarrow>
             (case generateStudyMindmap S w (lesson_id lesson) (content lesson) of
                (Inr mm, w1) \<Rightarrow>
                  (None,
                   st1\<lparr>mindmapContent := mm, loading := False,
                       sess := markCompleted lesson (sess st)\<rparr>, w1)
              | (Inl err, w1) \<Rightarrow>
                  (None,
                   st1\<lparr>apiError := (if includes_429 err then Some OutlineRateLimited else None),
                       loading := False, sess := markCompleted lesson (sess st)\<rparr>, w1))))"

text \<open>\<open>handleReview\<close> of part_003: the \<open>catch\<close> only logs.\<close>

definition handleReview_003 ::
  "service \<Rightarrow> platform \<Rightarrow> lesson \<Rightarrow> ui \<times> world \<Rightarrow> js_error option \<times> ui \<times> world" where
  "handleReview_003 S P lesson = (\<lambda>(st, w).
     (let st1 = st\<lparr>selectedLesson := Some lesson, reviewMode := ''summary''\<rparr>
      in case truthy_item w (''cache_mindmap_lesson_'' @ Number_toString (lesson_id lesson)) of
           Some cachedMM \<Rightarrow>
             (case JSON_parse P cachedMM of
                Inl e \<Rightarrow> (Some e, st1, w)
              | Inr mm \<Rightarrow>
                  (None, st1\<lparr>mindmapContent := mm, sess := markCompleted lesson (sess st)\<rparr>, w))
         | None \<Rightarrow>
             (case generateStudyMindmap S w (lesson_id lesson) (content lesson) of
                (Inr mm, w1) \<Rightarrow>
                  (None,
                   st1\<lparr>mindmapContent := mm, loading := False,
                       sess := markCompleted lesson (sess st)\<rparr>, w1)
              | (Inl err, w1) \<Rightarrow>
                  (None, st1\<lparr>loading := False, sess := markCompleted lesson (sess st)\<rparr>, w1))))"

text \<open>\<open>handleStartPractice\<close> of part_002.\<close>

definition handleStartPractice_002 ::
  "service \<Rightarrow> platform \<Rightarrow> lesson \<Rightarrow> bool \<Rightarrow> ui \<times> world \<Rightarrow> js_error option \<times> ui \<times> world" where
  "handleStartPractice_002 S P lesson forceNew = (\<lambda>(st, w).
     (let st1 = st\<lparr>selectedLesson := Some lesson, activeTab := ''practice'',
                    userAnswers := Map.empty, score := None, visibleHints := Map.empty,
                    apiError := None\<rparr>;
          generate =
            (case generateQuestionsFromContent S w (lesson_id lesson) (content lesson) forceNew of
               (Inr qs, w1) \<Rightarrow> (None, st1\<lparr>questions := qs, loading := False\<rparr>, w1)
             | (Inl err, w1) \<Rightarrow>
                 (None,
                  st1\<lparr>apiError := Some (if includes_429 err then QuizRateLimited else QuizFailed),
                      loading := False\<rparr>, w1))
      in if \<not> forceNew then
           (case truthy_item w (''cache_questions_lesson_'' @ Number_toString (lesson_id lesson)) of
              Some cachedQs \<Rightarrow>
                (case JSON_parse P cachedQs of
                   Inl e \<Rightarrow> (Some e, st1, w)
                 | Inr qs \<Rightarrow> (None, st1\<lparr>questions := qs\<rparr>, w))
            | None \<Rightarrow> generate)
         else generate))"

text \<open>\<open>handleStartPractice\<close> of part_003: the \<open>catch\<close> only logs.\<close>

definition handleStartPractice_003 ::
  "service \<Rightarrow> platform \<Rightarrow> lesson \<Rightarrow> bool \<Rightarrow> ui \<times> world \<Rightarrow> js_error option \<times> ui \<times> world" where
  "handleStartPractice_003 S P lesson forceNew = (\<lambda>(st, w).
     (let st1 = st\<lparr>selectedLesson := Some lesson, activeTab := ''practice'',
                    userAnswers := Map.empty, score := None, visibleHints := Map.empty\<rparr>;
          generate =
            (case generateQuestionsFromContent S w (lesson_id lesson) (content lesson) forceNew of
               (Inr qs, w1) \<Rightarrow> (None, st1\<lparr>questions := qs, loading := False\<rparr>, w1)
             | (Inl err, w1) \<Rightarrow> (None, st1\<lparr>loading := False\<rparr>, w1))
      in if \<not> forceNew then
           (case truthy_item w (''cache_questions_lesson_'' @ Number_toString (lesson_id lesson)) of
              Some cachedQs \<Rightarrow>
                (case JSON_parse P cachedQs of
                   Inl e \<Rightarrow> (Some e, st1, w)
                 | Inr qs \<Rightarrow> (None, st1\<lparr>questions := qs\<rparr>, w))
            | None \<Rightarrow> generate)
         else generate))"

text \<open>
  The click handlers of the trends tab: the one of part_002 (line 389), and the two of
  part_003 (the \<open>then\<close>/\<open>catch\<close> chain of line 531 and the async handler of lines
  540-550, which leave the same state).
\<close>

definition trendsClick_002 :: "service \<Rightarrow> ui \<times> world \<Rightarrow> js_error option \<times> ui \<times> world" where
  "trendsClick_002 S = (\<lambda>(st, w).
     (case searchGuangzhouExamTrends S w of
        (Inr data, w1) \<Rightarrow> (None, st\<lparr>apiError := None, trends := data, loading := False\<rparr>, w1)
      | (Inl err, w1) \<Rightarrow>
          (None,
           st\<lparr>apiError := (if includes_429 err then Some SearchRateLimited else None),
              loading := False\<rparr>, w1)))"

definition trendsClick_003 :: "service \<Rightarrow> ui \<times> world \<Rightarrow> js_error option \<times> ui \<times> world" where
  "trendsClick_003 S = (\<lambda>(st, w).
     (case searchGuangzhouExamTrends S w of
        (Inr data, w1) \<Rightarrow> (None, st\<lparr>trends := data, loading := False\<rparr>, w1)
      | (Inl err, w1) \<Rightarrow> (None, st\<lparr>loading := False\<rparr>, w1)))"

text \<open>
  The two client functions up to their first \<open>await\<close>, as the component gets them
  from either version of the client.
\<close>

record client_start =
  startQuestions :: "world \<Rightarrow> int \<Rightarrow> string \<Rightarrow> bool \<Rightarrow> json progress \<times> world"
  startMindmap :: "world \<Rightarrow> int \<Rightarrow> string \<Rightarrow> json progress \<times> world"



text \<open>
  \<open>prefetchLessonData\<close> of part_003, up to its return: for a lesson not yet in the
  queue the id is added and the two client functions are called one after the other;
  neither promise is awaited, so each call runs to its first \<open>await\<close>. The result
  tells how far each call got; a rejection is swallowed by \<open>catch(() => {})\<close>.
\<close>

definition prefetchLessonData_003 ::
  "client_start \<Rightarrow> lesson \<Rightarrow> ui \<times> world
   \<Rightarrow> (json progress \<times> json progress) option \<times> ui \<times> world" where
  "prefetchLessonData_003 B lesson = (\<lambda>(st, w).
     if lesson_id lesson \<in> prefetchQueue st then (None, st, w)
     else
       (let st1 = st\<lparr>prefetchQueue := insert (lesson_id lesson) (prefetchQueue st)\<rparr> in
        case startQuestions B w (lesson_id lesson) (content lesson) False of
          (p1, w1) \<Rightarrow>
            (case startMindmap B w1 (lesson_id lesson) (content lesson) of
               (p2, w2) \<Rightarrow> (Some (p1, p2), st1, w2))))"


text \<open>
  \<open>handleLogin\<close>: \<open>now\<close> is \<open>Date.now()\<close> and \<open>isoDate\<close> the text of
  \<open>new Date().toISOString()\<close>. The logout button removes \<open>history_user\<close> and reloads
  the page, after which \<open>user\<close> is \<open>null\<close>.
\<close>

definition handleLogin :: "string \<Rightarrow> int \<Rightarrow> string \<Rightarrow> session \<Rightarrow> session" where
  "handleLogin loginName now isoDate se =
     (if js_trim loginName = [] then se
      else saveUserProgress
             \<lparr>userId = Number_toString now, userName = loginName, completedLessons = [],
              quizScores = Map.empty, wrongQuestions = [], lastActive = isoDate\<rparr> se)"

definition logout :: "session \<Rightarrow> session" where
  "logout se = \<lparr>user = None, history_user = None\<rparr>"

text \<open>
  What the user can do to the record, in any order: open a lesson, start a practice,
  choose an answer, submit the quiz on screen (given as the typed questions it
  holds), and remove a question from the wrong list.
\<close>

datatype action =
  Review lesson
  | StartPractice lesson bool
  | Answer string string
  | Submit "question list"
  | ClearWrong string

text \<open>
  One action on the component of part_002 and of part_003; an error that leaves a
  handler uncaught leaves the page as it is at that point. Answers are taken while no
  score is shown.
\<close>

fun step_002 :: "service \<Rightarrow> platform \<Rightarrow> action \<Rightarrow> ui \<times> world \<Rightarrow> ui \<times> world" where
  "step_002 S P (Review lesson) (st, w) = snd (handleReview_002 S P lesson (st, w))"
| "step_002 S P (StartPractice lesson forceNew) (st, w) =
     snd (handleStartPractice_002 S P lesson forceNew (st, w))"
| "step_002 S P (Answer i letter) (st, w) =
     (if score st = None then (st\<lparr>userAnswers := (userAnswers st)(i \<mapsto> letter)\<rparr>, w) else (st, w))"
| "step_002 S P (Submit qs) (st, w) =
     (let r = calculateScore_002 qs (userAnswers st) (selectedLesson st) (sess st)
      in (st\<lparr>score := Some (score_set r), sess := session_after r\<rparr>, w))"
| "step_002 S P (ClearWrong i) (st, w) = (st\<lparr>sess := clearWrongQuestion i (sess st)\<rparr>, w)"

fun step_003 :: "service \<Rightarrow> platform \<Rightarrow> action \<Rightarrow> ui \<times> world \<Rightarrow> ui \<times> world" where
  "step_003 S P (Review lesson) (st, w) = snd (handleReview_003 S P lesson (st, w))"
| "step_003 S P (StartPractice lesson forceNew) (st, w) =
     snd (handleStartPractice_003 S P lesson forceNew (st, w))"
| "step_003 S P (Answer i letter) (st, w) =
     (if score st = None then (st\<lparr>userAnswers := (userAnswers st)(i \<mapsto> letter)\<rparr>, w) else (st, w))"
| "step_003 S P (Submit qs) (st, w) =
     (let r = calculateScore_003 qs (userAnswers st) (selectedLesson st) (sess st)
      in (st\<lparr>score := Some (score_set r), sess := session_after r\<rparr>, w))"
| "step_003 S P (ClearWrong i) (st, w) = (st\<lparr>sess := clearWrongQuestion i (sess st)\<rparr>, w)"

fun run_actions ::
  "(action \<Rightarrow> ui \<times> world \<Rightarrow> ui \<times> world) \<Rightarrow> action list \<Rightarrow> ui \<times> world \<Rightarrow> ui \<times> world" where
  "run_actions step [] s = s"
| "run_actions step (a # as) s = run_actions step as (step a s)"

text \<open>The lessons read so far, none when nobody is logged in.\<close>

definition session_completed :: "session \<Rightarrow> int list" where
  "session_completed se = (case user se of None \<Rightarrow> [] | Some u \<Rightarrow> completedLessons u)"

definition completed :: "ui \<times> world \<Rightarrow> int list" where
  "completed s = session_completed (sess (fst s))"









section \<open>A platform for concrete runs\<close>

text \<open>
  The JSON text of a value as \<open>JSON.stringify\<close> prints it, for strings without
  characters that need escaping.
\<close>

definition quoted :: "string \<Rightarrow> string" where
  "quoted s = CHR 0x22 # s @ [CHR 0x22]"

fun commas :: "string list \<Rightarrow> string" where
  "commas [] = []"
| "commas [x] = x"
| "commas (x # y # zs) = x @ '','' @ commas (y # zs)"

fun json_text :: "json \<Rightarrow> string" where
  "json_text JNull = ''null''"
| "json_text (JBool b) = (if b then ''true'' else ''false'')"
| "json_text (JNum n) = Number_toString n"
| "json_text (JStr s) = quoted s"
| "json_text (JArr xs) = ''['' @ commas (map json_text xs) @ '']''"
| "json_text (JObj ps) =
     ''{'' @ commas (map (\<lambda>p. quoted (fst p) @ '':'' @ json_text (snd p)) ps) @ ''}''"

text \<open>
  The values that occur in the concrete runs: a cached question list, a cached outline,
  a cached search result, and the falsy values.
\<close>

definition question_json :: json where
  "question_json =
     JObj [(''id'', JStr ''q1''), (''type'', JStr ''choice''), (''stem'', JStr ''stem''),
           (''options'', JArr [JStr ''A'', JStr ''B'']), (''answer'', JStr ''A''),
           (''analysis'', JStr ''analysis'')]"

definition trends_json :: json where
  "trends_json =
     JObj [(''text'', JStr ''exam news''),
           (''links'', JArr [JObj [(''title'', JStr ''site''), (''uri'', JStr ''https://example.org'')]])]"

definition sample_values :: "json list" where
  "sample_values =
     [JNull, JArr [], JArr [question_json], JStr ''outline'', JStr [], trends_json,
      JObj [(''text'', JStr []), (''links'', JArr [])]]"

text \<open>
  \<open>JSON.parse\<close> on the texts of these values; no other text is used in the runs
  except the malformed \<open>{\<close>, and every other text is rejected like it.
\<close>

definition syntax_error :: js_error where
  "syntax_error = JsError (Some ''Unexpected end of JSON input'')"

definition sample_parse :: "string \<Rightarrow> js_error + json" where
  "sample_parse s =
     (case find (\<lambda>v. json_text v = s) sample_values of
        None \<Rightarrow> Inl syntax_error
      | Some v \<Rightarrow> Inr v)"

definition sample_platform :: "(nat \<Rightarrow> js_error + response) \<Rightarrow> platform" where
  "sample_platform service =
     \<lparr>JSON_parse = sample_parse, JSON_stringify = json_text, generateContent = service\<rparr>"

text \<open>
  Services: one that answers every request with a question list, one that answers with
  a search result, one that rejects every request with a rate-limit error, and one that
  rejects every request with a network error.
\<close>

definition questions_service :: "nat \<Rightarrow> js_error + response" where
  "questions_service n =
     Inr \<lparr>response_text = Some (json_text (JArr [question_json])), groundingChunks = None\<rparr>"

definition search_service :: "nat \<Rightarrow> js_error + response" where
  "search_service n =
     Inr \<lparr>response_text = Some ''exam news'',
          groundingChunks = Some [(Some ''site'', Some ''https://example.org''), (None, Some ''x'')]\<rparr>"

definition rate_limited_service :: "nat \<Rightarrow> js_error + response" where
  "rate_limited_service n = Inl (JsError (Some ''got status: 429 Too Many Requests''))"

definition offline_service :: "nat \<Rightarrow> js_error + response" where
  "offline_service n = Inl (JsError (Some ''Failed to fetch''))"

text \<open>A world with the given localStorage and no request issued yet.\<close>

definition world_with :: "(string \<times> string) list \<Rightarrow> world" where
  "world_with entries = \<lparr>ls = map_of entries, requests = 0, pending = [], peak = 0, events = []\<rparr>"

text \<open>
  Worlds with a cached question list for lesson 1, and with a cached search result
  stamped at 1730000000000 ms or not stamped at all.
\<close>

definition world_questions_cached :: world where
  "world_questions_cached =
     world_with [(''cache_questions_lesson_1'', json_text (JArr [question_json]))]"

definition world_trends_cached :: world where
  "world_trends_cached =
     world_with [(''cache_exam_trends'', json_text trends_json),
                 (''trends_timestamp'', ''1730000000000'')]"

definition world_trends_unstamped :: world where
  "world_trends_unstamped = world_with [(''cache_exam_trends'', json_text trends_json)]"

definition questions_response :: response where
  "questions_response =
     \<lparr>response_text = Some (json_text (JArr [question_json])), groundingChunks = None\<rparr>"

definition search_response :: response where
  "search_response =
     \<lparr>response_text = Some ''exam news'',
      groundingChunks = Some [(Some ''site'', Some ''https://example.org''), (None, Some ''x'')]\<rparr>"

section \<open>Concrete inputs\<close>

text \<open>
  A quiz of \<open>n\<close> choice questions with ids \<open>0, 1, ...\<close>, each with correct answer
  \<open>A\<close>; and the answers of a user who chose \<open>A\<close> on the first \<open>k\<close> of them and
  nothing on the rest.
\<close>

definition choice_question :: "nat \<Rightarrow> question" where
  "choice_question i =
     \<lparr>qid = Number_toString (int i), qtype = ''choice'', stem = ''stem'',
      options = Some [''A'', ''B'', ''C'', ''D''], answer = ''A'', analysis = ''analysis'',
      material = None, hint = None\<rparr>"

definition quiz_of :: "nat \<Rightarrow> question list" where
  "quiz_of n = map choice_question [0..<n]"

definition answers_first :: "nat \<Rightarrow> (string \<rightharpoonup> string)" where
  "answers_first k = map_of (map (\<lambda>i. (Number_toString (int i), ''A'')) [0..<k])"

definition lesson_1 :: lesson where
  "lesson_1 = \<lparr>lesson_id = 1, title = ''title'', period = ''period'', content = ''content'',
     keyConcepts = [''concept'']\<rparr>"

text \<open>
  A user who scored 80 on lesson 1, has read lessons 1 and 2, and has question \<open>0\<close>
  on the wrong list.
\<close>

definition user_0 :: userProgress where
  "user_0 = \<lparr>userId = ''1730000000000'', userName = ''student'', completedLessons = [1, 2],
     quizScores = [1 \<mapsto> 80], wrongQuestions = [choice_question 0],
     lastActive = ''2024-10-27T00:00:00.000Z''\<rparr>"

definition session_0 :: session where
  "session_0 = \<lparr>user = Some user_0, history_user = Some user_0\<rparr>"

definition no_session :: session where
  "no_session = \<lparr>user = None, history_user = None\<rparr>"

text \<open>The component just after the page has loaded with the user of \<open>session_0\<close>.\<close>

definition ui_0 :: ui where
  "ui_0 =
     \<lparr>sess = session_0, selectedLesson = None, activeTab = ''study'', reviewMode = ''summary'',
      mindmapContent = JStr [], questions = JArr [], loading = False, apiError = None,
      trends = JNull, userAnswers = Map.empty, score = None, visibleHints = Map.empty,
      prefetchQueue = {}\<rparr>"

definition lesson_3 :: lesson where
  "lesson_3 = \<lparr>lesson_id = 3, title = ''title'', period = ''period'', content = ''content'',
     keyConcepts = []\<rparr>"


section \<open>Properties of the retry wrapper\<close>

lemma includes_iff: "js_includes s p \<longleftrightarrow> (\<exists>a b. s = a @ p @ b)"
proof (induction s)
  case Nil
  show ?case by auto
next
  case (Cons c cs)
  show ?case
  proof
    assume "js_includes (c # cs) p"
    then consider "prefix p (c # cs)" | "js_includes cs p" by auto
    then show "\<exists>a b. c # cs = a @ p @ b"
    proof cases
      case 1
      then obtain b where "c # cs = p @ b" by (auto simp: prefix_def)
      then have "c # cs = [] @ p @ b" by simp
      then show ?thesis by blast
    next
      case 2
      with Cons.IH obtain a b where "cs = a @ p @ b" by blast
      then have "c # cs = (c # a) @ p @ b" by simp
      then show ?thesis by blast
    qed
  next
    assume "\<exists>a b. c # cs = a @ p @ b"
    then obtain a b where ab: "c # cs = a @ p @ b" by blast
    show "js_includes (c # cs) p"
    proof (cases a)
      case Nil
      with ab have "prefix p (c # cs)" by (simp add: prefix_def)
      then show ?thesis by simp
    next
      case (Cons a0 as)
      with ab have "cs = as @ p @ b" by simp
      with Cons.IH have "js_includes cs p" by blast
      then show ?thesis by simp
    qed
  qed
qed

lemma backoff_delays_0: "backoff_delays d 0 = []"
  by (simp add: backoff_delays_def)

lemma backoff_delays_Suc: "backoff_delays d (Suc n) = d # backoff_delays (d * 2) n"
proof -
  have "[0..<Suc n] = 0 # map Suc [0..<n]"
    by (simp add: upt_conv_Cons map_Suc_upt del: upt_Suc)
  then have "backoff_delays d (Suc n) = d # map (\<lambda>j. d * 2 ^ Suc j) [0..<n]"
    by (simp add: backoff_delays_def comp_def del: upt_Suc)
  also have "map (\<lambda>j. d * 2 ^ Suc j) [0..<n] = backoff_delays (d * 2) n"
    by (simp add: backoff_delays_def mult.assoc)
  finally show ?thesis .
qed

text \<open>
  The invariant of the loop, entered at counter \<open>i\<close> with at least one iteration left.
\<close>

lemma retryWithBackoff_loop_ok:
  "i < maxRetries \<Longrightarrow>
   retry_run_ok fn s delay (maxRetries - i) (retryWithBackoff_loop fn maxRetries i delay s)"
proof (induction fn maxRetries i delay s rule: retryWithBackoff_loop.induct)
  case (1 fn maxRetries i delay s)
  obtain o1 s1 where fs: "fn s = (o1, s1)" by (cases "fn s")
  let ?r = "retryWithBackoff_loop fn maxRetries i delay s"
  consider (ok) v where "o1 = Inr v"
    | (stop) e where "o1 = Inl e" "\<not> (isQuotaError e \<and> i < maxRetries - 1)"
    | (again) e where "o1 = Inl e" "isQuotaError e" "i < maxRetries - 1"
    by (cases o1) auto
  then show ?case
  proof cases
    case ok
    have eq: "?r = \<lparr>result = Inr v, final = s1, attempts = [Inr v], waits = []\<rparr>"
      using "1.prems" fs ok by (subst retryWithBackoff_loop.simps) simp
    show ?thesis
      using "1.prems" fs ok
      by (simp add: eq retry_run_ok_def retryable_def backoff_delays_0)
  next
    case stop
    have eq: "?r = \<lparr>result = Inl e, final = s1, attempts = [Inl e], waits = []\<rparr>"
      using "1.prems" fs stop by (subst retryWithBackoff_loop.simps) auto
    show ?thesis
      using "1.prems" fs stop
      by (auto simp add: eq retry_run_ok_def retryable_def backoff_delays_0)
  next
    case again
    let ?r' = "retryWithBackoff_loop fn maxRetries (i + 1) (delay * 2) s1"
    have eq: "?r = ?r'\<lparr>attempts := Inl e # attempts ?r', waits := delay # waits ?r'\<rparr>"
      using "1.prems" fs again by (subst retryWithBackoff_loop.simps) (simp add: Let_def)
    have less: "i + 1 < maxRetries" using again by simp
    have qe: "isQuotaError e \<and> i < maxRetries - 1" using again by simp
    have IH: "retry_run_ok fn s1 (delay * 2) (maxRetries - (i + 1)) ?r'"
      using "1.IH"[OF "1.prems" fs[symmetric] again(1) qe less] .
    have ne: "attempts ?r' \<noteq> []"
      and len: "int (length (attempts ?r')) \<le> maxRetries - (i + 1)"
      and tr: "attempts ?r' = fn_outcomes fn s1 (length (attempts ?r'))"
      and res: "result ?r' = last (attempts ?r')"
      and bl: "list_all retryable (butlast (attempts ?r'))"
      and ws: "waits ?r' = backoff_delays (delay * 2) (length (attempts ?r') - 1)"
      and la: "retryable (last (attempts ?r')) \<longrightarrow> int (length (attempts ?r')) = maxRetries - (i + 1)"
      using IH unfolding retry_run_ok_def by blast+
    obtain n where n: "length (attempts ?r') = Suc n" using ne by (cases "attempts ?r'") auto
    have "attempts ?r = fn_outcomes fn s (length (attempts ?r))"
      using tr fs again by (simp add: eq)
    moreover have "waits ?r = backoff_delays delay (length (attempts ?r) - 1)"
      using ws n by (simp add: eq backoff_delays_Suc)
    moreover have "list_all retryable (butlast (attempts ?r))"
      using bl ne again by (simp add: eq retryable_def)
    moreover have "result ?r = last (attempts ?r)"
      using res ne by (simp add: eq)
    moreover have "int (length (attempts ?r)) \<le> maxRetries - i"
      using len by (simp add: eq)
    moreover have "retryable (last (attempts ?r)) \<longrightarrow> int (length (attempts ?r)) = maxRetries - i"
      using la ne by (auto simp add: eq)
    moreover have "attempts ?r \<noteq> []" by (simp add: eq)
    ultimately show ?thesis unfolding retry_run_ok_def by blast
  qed
qed

lemma fn_outcomes_hd: "0 < n \<Longrightarrow> hd (fn_outcomes fn s n) = fst (fn s)"
  by (cases n) (auto split: prod.splits)

lemma length_fn_outcomes: "length (fn_outcomes fn s n) = n"
  by (induction n arbitrary: s) (auto split: prod.splits)

lemma retry_run_ok_first:
  assumes ok: "retry_run_ok fn s d budget r" and nr: "\<not> retryable (fst (fn s))"
  shows "attempts r = [fst (fn s)] \<and> result r = fst (fn s) \<and> waits r = []"
proof -
  from ok have ne: "attempts r \<noteq> []"
    and tr: "attempts r = fn_outcomes fn s (length (attempts r))"
    and res: "result r = last (attempts r)"
    and bl: "list_all retryable (butlast (attempts r))"
    and ws: "waits r = backoff_delays d (length (attempts r) - 1)"
    unfolding retry_run_ok_def by blast+
  from ne have pos: "0 < length (attempts r)" by simp
  have hd: "hd (attempts r) = fst (fn s)"
    using fn_outcomes_hd[OF pos, of fn s] tr by simp
  obtain x xs where xs: "attempts r = x # xs" using ne by (cases "attempts r") auto
  have "xs = []"
  proof (rule ccontr)
    assume "xs \<noteq> []"
    then have "x \<in> set (butlast (attempts r))" by (simp add: xs)
    with bl have "retryable x" by (simp add: list_all_iff)
    with hd xs nr show False by simp
  qed
  with xs hd have one: "attempts r = [fst (fn s)]" by simp
  with res ws show ?thesis by (simp add: backoff_delays_0)
qed

text \<open>
  C1. For every callee and every integer \<open>maxRetries \<ge> 1\<close>, \<open>retryWithBackoff\<close> calls
  \<open>fn\<close> at least once and at most \<open>maxRetries\<close> times, the calls being successive calls
  of \<open>fn\<close>; it settles with the outcome of the last call; every call but the last was
  rejected with a message containing \<open>429\<close> or \<open>RESOURCE_EXHAUSTED\<close> while a retry
  remained; the delays awaited before the retries are \<open>2000, 4000, 8000, ...\<close>; a first
  call that resolves, or is rejected with a message matching neither string, is the only
  call, and its outcome is passed on with no delay; and a rate-limit rejection ends the
  run only at the last permitted attempt, where it is rethrown.
\<close>

theorem retryWithBackoff_bounded:
  assumes "1 \<le> maxRetries"
  shows
    "(let r = retryWithBackoff fn maxRetries s; n = length (attempts r) in
        1 \<le> n \<and> int n \<le> maxRetries
        \<and> attempts r = fn_outcomes fn s n
        \<and> result r = last (attempts r)
        \<and> (\<forall>j. Suc j < n \<longrightarrow> retryable (attempts r ! j) \<and> int (Suc j) < maxRetries)
        \<and> waits r = map (\<lambda>j. 2000 * 2 ^ j) [0..<n - 1]
        \<and> (\<not> retryable (fst (fn s)) \<longrightarrow>
              attempts r = [fst (fn s)] \<and> result r = fst (fn s) \<and> waits r = [])
        \<and> (retryable (result r) \<longrightarrow> int n = maxRetries))"
proof -
  let ?r = "retryWithBackoff fn maxRetries s"
  have "0 < maxRetries" using assms by simp
  then have ok: "retry_run_ok fn s 2000 maxRetries ?r"
    using retryWithBackoff_loop_ok[of 0 maxRetries fn s 2000]
    by (simp add: retryWithBackoff_def)
  then have ne: "attempts ?r \<noteq> []"
    and len: "int (length (attempts ?r)) \<le> maxRetries"
    and tr: "attempts ?r = fn_outcomes fn s (length (attempts ?r))"
    and res: "result ?r = last (attempts ?r)"
    and bl: "list_all retryable (butlast (attempts ?r))"
    and ws: "waits ?r = backoff_delays 2000 (length (attempts ?r) - 1)"
    and la: "retryable (last (attempts ?r)) \<longrightarrow> int (length (attempts ?r)) = maxRetries"
    unfolding retry_run_ok_def by blast+
  have one: "1 \<le> length (attempts ?r)" using ne by (cases "attempts ?r") auto
  have mid: "\<forall>j. Suc j < length (attempts ?r) \<longrightarrow>
               retryable (attempts ?r ! j) \<and> int (Suc j) < maxRetries"
  proof (intro allI impI)
    fix j assume j: "Suc j < length (attempts ?r)"
    then have "j < length (butlast (attempts ?r))" by simp
    then have "butlast (attempts ?r) ! j \<in> set (butlast (attempts ?r))"
      by (rule nth_mem)
    moreover have "butlast (attempts ?r) ! j = attempts ?r ! j"
      using j by (simp add: nth_butlast)
    ultimately have "retryable (attempts ?r ! j)" using bl by (simp add: list_all_iff)
    moreover have "int (Suc j) < maxRetries" using j len by linarith
    ultimately show "retryable (attempts ?r ! j) \<and> int (Suc j) < maxRetries" by simp
  qed
  have first: "\<not> retryable (fst (fn s)) \<longrightarrow>
                 attempts ?r = [fst (fn s)] \<and> result ?r = fst (fn s) \<and> waits ?r = []"
    using retry_run_ok_first[OF ok] by blast
  have ws': "waits ?r = map (\<lambda>j. 2000 * 2 ^ j) [0..<length (attempts ?r) - 1]"
    using ws by (simp add: backoff_delays_def)
  have la': "retryable (result ?r) \<longrightarrow> int (length (attempts ?r)) = maxRetries"
    using la res by simp
  show ?thesis
    unfolding Let_def using one len tr res mid ws' first la' by blast
qed

lemma retry_runs:
  "retryWithBackoff (reject_until ''got status: 429 Too Many Requests'' 1) 2 0
     = \<lparr>result = Inr 1, final = 2,
        attempts = [Inl (JsError (Some ''got status: 429 Too Many Requests'')), Inr 1],
        waits = [2000]\<rparr>"
  "retryWithBackoff (reject_until ''RESOURCE_EXHAUSTED'' 5) 3 0
     = \<lparr>result = Inl (JsError (Some ''RESOURCE_EXHAUSTED'')), final = 3,
        attempts = [Inl (JsError (Some ''RESOURCE_EXHAUSTED'')),
                    Inl (JsError (Some ''RESOURCE_EXHAUSTED'')),
                    Inl (JsError (Some ''RESOURCE_EXHAUSTED''))],
        waits = [2000, 4000]\<rparr>"
  "retryWithBackoff (reject_until ''Failed to fetch'' 1) 2 0
     = \<lparr>result = Inl (JsError (Some ''Failed to fetch'')), final = 1,
        attempts = [Inl (JsError (Some ''Failed to fetch''))], waits = []\<rparr>"
  by (simp_all add: retryWithBackoff_def retryWithBackoff_loop.simps reject_until_def
      isQuotaError_def Let_def)

text \<open>
  Three runs. With the default \<open>maxRetries = 2\<close> and a first call that is
  rate-limited: one retry after 2000 ms, two calls in all. With \<open>maxRetries = 3\<close> and a
  service that stays rate-limited: three calls, delays of 2000 and 4000 ms, and the third
  rejection is rethrown. With a first call rejected for another reason: one call, no
  delay, the rejection rethrown.
\<close>

theorem retryWithBackoff_bounded_witness:
  "(1::int) \<le> 2 \<and> (1::int) \<le> 3
   \<and> attempts (retryWithBackoff (reject_until ''got status: 429 Too Many Requests'' 1) 2 0)
       = [Inl (JsError (Some ''got status: 429 Too Many Requests'')), Inr 1]
   \<and> waits (retryWithBackoff (reject_until ''got status: 429 Too Many Requests'' 1) 2 0) = [2000]
   \<and> result (retryWithBackoff (reject_until ''got status: 429 Too Many Requests'' 1) 2 0) = Inr 1
   \<and> retryable (Inl (JsError (Some ''got status: 429 Too Many Requests'')) :: js_error + nat)
   \<and> retryable (result (retryWithBackoff (reject_until ''RESOURCE_EXHAUSTED'' 5) 3 0))
   \<and> int (length (attempts (retryWithBackoff (reject_until ''RESOURCE_EXHAUSTED'' 5) 3 0))) = 3
   \<and> waits (retryWithBackoff (reject_until ''RESOURCE_EXHAUSTED'' 5) 3 0) = [2000, 4000]
   \<and> \<not> retryable (fst (reject_until ''Failed to fetch'' 1 0))
   \<and> attempts (retryWithBackoff (reject_until ''Failed to fetch'' 1) 2 0)
       = [fst (reject_until ''Failed to fetch'' 1 0)]
   \<and> waits (retryWithBackoff (reject_until ''Failed to fetch'' 1) 2 0) = []"
proof -
  have h2: "(1::int) \<le> 2" and h3: "(1::int) \<le> 3" by simp_all
  have q: "retryable (Inl (JsError (Some ''got status: 429 Too Many Requests'')) :: js_error + nat)"
    by (simp add: retryable_def isQuotaError_def)
  have q3: "retryable (result (retryWithBackoff (reject_until ''RESOURCE_EXHAUSTED'' 5) 3 0))"
    by (simp add: retry_runs(2) retryable_def isQuotaError_def)
  have n1: "\<not> retryable (fst (reject_until ''Failed to fetch'' 1 0))"
    by (simp add: reject_until_def retryable_def isQuotaError_def)
  have l3: "int (length (attempts (retryWithBackoff (reject_until ''RESOURCE_EXHAUSTED'' 5) 3 0))) = 3"
    using retryWithBackoff_bounded[OF h3, of "reject_until ''RESOURCE_EXHAUSTED'' 5" 0] q3
    unfolding Let_def by blast
  have a1: "attempts (retryWithBackoff (reject_until ''Failed to fetch'' 1) 2 0)
       = [fst (reject_until ''Failed to fetch'' 1 0)]
     \<and> waits (retryWithBackoff (reject_until ''Failed to fetch'' 1) 2 0) = []"
    using retryWithBackoff_bounded[OF h2, of "reject_until ''Failed to fetch'' 1" 0] n1
    unfolding Let_def by blast
  have w2: "waits (retryWithBackoff (reject_until ''got status: 429 Too Many Requests'' 1) 2 0)
      = map (\<lambda>j. 2000 * 2 ^ j)
          [0..<length (attempts
             (retryWithBackoff (reject_until ''got status: 429 Too Many Requests'' 1) 2 0)) - 1]"
    using retryWithBackoff_bounded[OF h2,
        of "reject_until ''got status: 429 Too Many Requests'' 1" 0]
    unfolding Let_def by blast
  have w2': "waits (retryWithBackoff (reject_until ''got status: 429 Too Many Requests'' 1) 2 0)
      = [2000]"
    using w2 unfolding retry_runs(1) by simp
  have r1: "attempts (retryWithBackoff (reject_until ''got status: 429 Too Many Requests'' 1) 2 0)
       = [Inl (JsError (Some ''got status: 429 Too Many Requests'')), Inr 1]
     \<and> result (retryWithBackoff (reject_until ''got status: 429 Too Many Requests'' 1) 2 0) = Inr 1"
    unfolding retry_runs(1) by simp
  have r3: "waits (retryWithBackoff (reject_until ''RESOURCE_EXHAUSTED'' 5) 3 0) = [2000, 4000]"
    unfolding retry_runs(2) by simp
  from h2 h3 q q3 n1 l3 a1 w2' r1 r3 show ?thesis by blast
qed

section \<open>Properties of the double-precision model\<close>

text \<open>
  \<open>ilog2\<close> is the binary exponent of a positive rational, and \<open>round_to_double\<close>
  returns a multiple of the unit in the last place with a significand of 53 bits, at
  most half a unit away from its argument.
\<close>

lemma bit_length_bounds:
  "0 < n \<Longrightarrow> 1 \<le> bit_length n \<and> 2 ^ nat (bit_length n - 1) \<le> n \<and> n < 2 ^ nat (bit_length n)"
proof (induction n rule: bit_length.induct)
  case (1 n)
  have bl: "bit_length n = 1 + bit_length (n div 2)"
    using "1.prems" by (subst bit_length.simps) simp
  show ?case
  proof (cases "n div 2 = 0")
    case True
    then have "n = 1" using "1.prems" by presburger
    moreover have "bit_length 0 = 0" by (subst bit_length.simps) simp
    ultimately show ?thesis using bl True by simp
  next
    case False
    then have pos: "0 < n div 2" using "1.prems" by presburger
    have "\<not> n \<le> 0" using "1.prems" by simp
    from "1.IH"[OF this pos] have ih1: "1 \<le> bit_length (n div 2)"
      and ih2: "2 ^ nat (bit_length (n div 2) - 1) \<le> n div 2"
      and ih3: "n div 2 < 2 ^ nat (bit_length (n div 2))" by blast+
    have e1: "nat (bit_length n - 1) = Suc (nat (bit_length (n div 2) - 1))"
      using bl ih1 by simp
    have e2: "nat (bit_length n) = Suc (nat (bit_length (n div 2)))"
      using bl ih1 by simp
    have "2 * (n div 2) \<le> n" by presburger
    with ih2 have lo: "2 ^ nat (bit_length n - 1) \<le> n" by (simp add: e1)
    have "n < 2 * (n div 2) + 2" by presburger
    moreover have "n div 2 + 1 \<le> 2 ^ nat (bit_length (n div 2))" using ih3 by simp
    ultimately have hi: "n < 2 ^ nat (bit_length n)" by (simp add: e2)
    from lo hi bl ih1 show ?thesis by simp
  qed
qed

lemma ilog2_bounds:
  assumes "0 < x"
  shows "power_int 2 (ilog2 x) \<le> x \<and> x < power_int 2 (ilog2 x + 1)"
proof -
  obtain p q where pq: "quotient_of x = (p, q)" by (cases "quotient_of x")
  have q: "0 < q" using quotient_of_denom_pos[OF pq] .
  have x: "x = of_int p / of_int q" using quotient_of_div[OF pq] .
  have p: "0 < p" using assms q unfolding x by (simp add: zero_less_divide_iff)
  let ?a = "bit_length p" and ?b = "bit_length q"
  from bit_length_bounds[OF p] have a1: "1 \<le> ?a" and plo: "2 ^ nat (?a - 1) \<le> p"
    and phi: "p < 2 ^ nat ?a" by blast+
  from bit_length_bounds[OF q] have b1: "1 \<le> ?b" and qlo: "2 ^ nat (?b - 1) \<le> q"
    and qhi: "q < 2 ^ nat ?b" by blast+
  have P: "power_int (2::rat) (?a - 1) \<le> of_int p" "of_int p < power_int (2::rat) ?a"
  proof -
    have "(of_int (2 ^ nat (?a - 1)) :: rat) \<le> of_int p" using plo by (simp only: of_int_le_iff)
    then show "power_int (2::rat) (?a - 1) \<le> of_int p" using a1 by (simp add: power_int_def)
    have "(of_int p :: rat) < of_int (2 ^ nat ?a)" using phi by (simp only: of_int_less_iff)
    then show "of_int p < power_int (2::rat) ?a" using a1 by (simp add: power_int_def)
  qed
  have Q: "power_int (2::rat) (?b - 1) \<le> of_int q" "of_int q < power_int (2::rat) ?b"
  proof -
    have "(of_int (2 ^ nat (?b - 1)) :: rat) \<le> of_int q" using qlo by (simp only: of_int_le_iff)
    then show "power_int (2::rat) (?b - 1) \<le> of_int q" using b1 by (simp add: power_int_def)
    have "(of_int q :: rat) < of_int (2 ^ nat ?b)" using qhi by (simp only: of_int_less_iff)
    then show "of_int q < power_int (2::rat) ?b" using b1 by (simp add: power_int_def)
  qed
  have qr: "(0::rat) < of_int q" using q by simp
  have pr: "(0::rat) < of_int p" using p by simp
  have pw: "\<And>k. (0::rat) < power_int 2 k" by (simp add: zero_less_power_int)
  have hi: "x < power_int 2 (?a - ?b + 1)"
  proof -
    have "x < power_int 2 ?a / of_int q"
      unfolding x using P(2) qr by (simp add: divide_strict_right_mono)
    also have "\<dots> \<le> power_int 2 ?a / power_int 2 (?b - 1)"
      using Q(1) pw by (simp add: frac_le)
    also have "\<dots> = power_int 2 (?a - (?b - 1))"
      by (simp add: power_int_diff)
    finally show ?thesis by (simp add: algebra_simps)
  qed
  have lo: "power_int 2 (?a - ?b - 1) < x"
  proof -
    have "power_int (2::rat) (?a - ?b - 1) = power_int 2 (?a - 1) / power_int 2 ?b"
      by (simp add: power_int_diff[symmetric] algebra_simps)
    also have "\<dots> < power_int 2 (?a - 1) / of_int q"
      using Q(2) qr pw by (simp add: divide_strict_left_mono)
    also have "\<dots> \<le> x"
      unfolding x using P(1) qr by (simp add: divide_right_mono)
    finally show ?thesis .
  qed
  show ?thesis
  proof (cases "power_int 2 (?a - ?b) \<le> x")
    case True
    then have "ilog2 x = ?a - ?b" by (simp add: ilog2_def pq Let_def)
    with True hi show ?thesis by simp
  next
    case False
    then have e: "ilog2 x = ?a - ?b - 1" by (simp add: ilog2_def pq Let_def)
    from False have "x < power_int 2 (?a - ?b)" by simp
    with lo show ?thesis by (simp add: e)
  qed
qed

lemma round_ties_even_near: "\<bar>of_int (round_ties_even y) - y\<bar> \<le> 1 / 2"
proof -
  let ?f = "\<lfloor>y\<rfloor>"
  have f: "of_int ?f \<le> y" "y < of_int ?f + 1" by linarith+
  consider "y - of_int ?f < 1 / 2" | "1 / 2 < y - of_int ?f" | "y - of_int ?f = 1 / 2"
    by linarith
  then show ?thesis
  proof cases
    case 1
    then have e: "round_ties_even y = ?f" by (simp add: round_ties_even_def Let_def)
    have "\<bar>of_int ?f - y\<bar> \<le> 1 / 2" using 1 f by linarith
    then show ?thesis by (simp only: e)
  next
    case 2
    then have e: "round_ties_even y = ?f + 1" by (simp add: round_ties_even_def Let_def)
    have "\<bar>of_int (?f + 1) - y\<bar> \<le> 1 / 2" using 2 f by simp
    then show ?thesis by (simp only: e)
  next
    case 3
    then have e: "round_ties_even y = ?f \<or> round_ties_even y = ?f + 1"
      by (simp add: round_ties_even_def Let_def)
    have "\<bar>of_int ?f - y\<bar> \<le> 1 / 2" using 3 by linarith
    moreover have "\<bar>of_int (?f + 1) - y\<bar> \<le> 1 / 2" using 3 by simp
    ultimately show ?thesis using e by metis
  qed
qed

lemma round_ties_even_mono_int:
  assumes "of_int a \<le> y" and "y \<le> of_int b"
  shows "a \<le> round_ties_even y \<and> round_ties_even y \<le> b"
proof -
  let ?f = "\<lfloor>y\<rfloor>"
  have fa: "a \<le> ?f" using assms(1) by (simp add: le_floor_iff)
  have fb: "?f \<le> b" using assms(2) by (simp add: floor_le_iff)
  show ?thesis
  proof (cases "y = of_int ?f")
    case True
    then have "y - of_int ?f = 0" by simp
    then have "round_ties_even y = ?f" by (simp add: round_ties_even_def Let_def)
    with fa fb show ?thesis by simp
  next
    case False
    then have "of_int ?f < y" using of_int_floor_le[of y] by linarith
    then have "?f < b" using assms(2) by (metis floor_less_iff less_le_trans not_less of_int_less_iff order.strict_trans2)
    then have "?f + 1 \<le> b" by simp
    moreover have "round_ties_even y = ?f \<or> round_ties_even y = ?f + 1"
      by (simp add: round_ties_even_def Let_def)
    ultimately show ?thesis using fa fb by auto
  qed
qed

lemma round_to_double_nearest:
  assumes "0 < x"
  defines "ulp \<equiv> power_int 2 (ilog2 x - 52)"
  shows "\<exists>m. round_to_double x = of_int m * ulp \<and> 2 ^ 52 \<le> m \<and> m \<le> 2 ^ 53"
    and "\<bar>round_to_double x - x\<bar> \<le> ulp / 2"
proof -
  have u: "0 < ulp" by (simp add: ulp_def zero_less_power_int)
  have rd: "round_to_double x = of_int (round_ties_even (x / ulp)) * ulp"
    using assms(1) by (simp add: round_to_double_def ulp_def Let_def)
  from ilog2_bounds[OF assms(1)] have lo: "power_int 2 (ilog2 x) \<le> x"
    and hi: "x < power_int 2 (ilog2 x + 1)" by blast+
  have s: "power_int (2::rat) (ilog2 x) = 2 ^ 52 * ulp"
    "power_int (2::rat) (ilog2 x + 1) = 2 ^ 53 * ulp"
  proof -
    have "ilog2 x = 52 + (ilog2 x - 52)" by simp
    then have "power_int (2::rat) (ilog2 x) = power_int 2 (52 + (ilog2 x - 52))"
      by (simp only:)
    also have "\<dots> = power_int 2 52 * ulp" unfolding ulp_def by (subst power_int_add) simp_all
    finally show "power_int (2::rat) (ilog2 x) = 2 ^ 52 * ulp" by simp
    have "ilog2 x + 1 = 53 + (ilog2 x - 52)" by simp
    then have "power_int (2::rat) (ilog2 x + 1) = power_int 2 (53 + (ilog2 x - 52))"
      by (simp only:)
    also have "\<dots> = power_int 2 53 * ulp" unfolding ulp_def by (subst power_int_add) simp_all
    finally show "power_int (2::rat) (ilog2 x + 1) = 2 ^ 53 * ulp" by simp
  qed
  have "2 ^ 52 \<le> x / ulp" using lo u unfolding s by (simp add: pos_le_divide_eq)
  moreover have "x / ulp \<le> 2 ^ 53" using hi u unfolding s by (simp add: pos_divide_le_eq)
  ultimately have "of_int (2 ^ 52) \<le> x / ulp" "x / ulp \<le> of_int (2 ^ 53)" by simp_all
  from round_ties_even_mono_int[OF this]
  have "2 ^ 52 \<le> round_ties_even (x / ulp) \<and> round_ties_even (x / ulp) \<le> 2 ^ 53" .
  with rd show "\<exists>m. round_to_double x = of_int m * ulp \<and> 2 ^ 52 \<le> m \<and> m \<le> 2 ^ 53" by blast
  have "\<bar>round_to_double x - x\<bar> = \<bar>of_int (round_ties_even (x / ulp)) - x / ulp\<bar> * ulp"
  proof -
    have "round_to_double x - x = (of_int (round_ties_even (x / ulp)) - x / ulp) * ulp"
      using u by (simp add: rd algebra_simps)
    then show ?thesis using u by (simp add: abs_mult)
  qed
  also have "\<dots> \<le> (1 / 2) * ulp"
    using round_ties_even_near[of "x / ulp"] u by (simp add: mult_right_mono)
  finally show "\<bar>round_to_double x - x\<bar> \<le> ulp / 2" by simp
qed

section \<open>Properties of scoring\<close>

lemma forEach_question_acc:
  "forEach_question ua qs (cc, ct, cw) =
     (cc + length (filter (\<lambda>q. qtype q = ''choice'' \<and> ua (qid q) = Some (answer q)) qs),
      ct + length (filter (\<lambda>q. qtype q = ''choice'') qs),
      cw @ filter (\<lambda>q. \<not> (qtype q = ''choice'' \<and> ua (qid q) = Some (answer q))) qs)"
  by (induction qs arbitrary: cc ct cw) auto

lemma forEach_question_init:
  "forEach_question ua qs (0, 0, []) =
     (length (filter (\<lambda>q. qtype q = ''choice'' \<and> ua (qid q) = Some (answer q)) qs),
      length (filter (\<lambda>q. qtype q = ''choice'') qs),
      filter (\<lambda>q. \<not> (qtype q = ''choice'' \<and> ua (qid q) = Some (answer q))) qs)"
  by (simp add: forEach_question_acc)

lemma score_set_003:
  "score_set (calculateScore_003 qs ua sl se) =
     finalScore (length (filter (\<lambda>q. qtype q = ''choice'' \<and> ua (qid q) = Some (answer q)) qs))
       (length (filter (\<lambda>q. qtype q = ''choice'') qs))"
  by (simp add: calculateScore_003_def forEach_question_init Let_def split: option.splits)

lemma score_set_002:
  "score_set (calculateScore_002 qs ua sl se) =
     finalScore (length (filter (\<lambda>q. qtype q = ''choice'' \<and> ua (qid q) = Some (answer q)) qs))
       (length (filter (\<lambda>q. qtype q = ''choice'') qs))"
  by (simp add: calculateScore_002_def forEach_question_init Let_def split: option.splits)

lemma find_None_qid:
  "(find (\<lambda>wq. qid wq = i) wqs = None) = (i \<notin> set (map qid wqs))"
  by (induction wqs) auto

lemma session_after_003:
  assumes "user se = Some u" and "sl = Some l"
  shows "session_after (calculateScore_003 qs ua sl se) =
     saveUserProgress
       (u\<lparr>quizScores := (quizScores u)(lesson_id l \<mapsto>
             max (currentBest_of (quizScores u (lesson_id l)))
                 (score_set (calculateScore_003 qs ua sl se))),
          wrongQuestions := wrongQuestions u @
             filter (\<lambda>q. qid q \<notin> set (map qid (wrongQuestions u)))
               (filter (\<lambda>q. \<not> (qtype q = ''choice'' \<and> ua (qid q) = Some (answer q))) qs)\<rparr>) se"
  using assms
  by (simp add: calculateScore_003_def forEach_question_init Let_def)

lemma session_after_002:
  assumes "user se = Some u" and "sl = Some l"
  shows "session_after (calculateScore_002 qs ua sl se) =
     saveUserProgress
       (u\<lparr>quizScores := (quizScores u)(lesson_id l \<mapsto>
             max (currentBest_of (quizScores u (lesson_id l)))
                 (score_set (calculateScore_002 qs ua sl se))),
          wrongQuestions := wrongQuestions u @
             filter (\<lambda>q. qid q \<notin> set (map qid (wrongQuestions u)))
               (filter (\<lambda>q. \<not> (qtype q = ''choice'' \<and> ua (qid q) = Some (answer q))) qs)\<rparr>) se"
  using assms
  by (simp add: calculateScore_002_def forEach_question_init Let_def find_None_qid)

lemma session_after_unchanged_003:
  "user se = None \<or> sl = None \<Longrightarrow> session_after (calculateScore_003 qs ua sl se) = se"
  by (auto simp add: calculateScore_003_def Let_def split: prod.splits option.splits)

lemma session_after_unchanged_002:
  "user se = None \<or> sl = None \<Longrightarrow> session_after (calculateScore_002 qs ua sl se) = se"
  by (auto simp add: calculateScore_002_def Let_def split: prod.splits option.splits)

lemma finalScore_23_40: "finalScore 23 40 = 57"
  by code_simp

lemma score_as_specified_23_40: "score_as_specified 23 40 = 58"
  by code_simp

lemma quiz_40_counts:
  "length (filter (\<lambda>q. qtype q = ''choice'') (quiz_of 40)) = 40"
  "length (filter (\<lambda>q. qtype q = ''choice'' \<and> answers_first 23 (qid q) = Some (answer q))
     (quiz_of 40)) = 23"
  by code_simp+

text \<open>
  C2, as stated, fails: on a quiz of 40 choice questions of which 23 are answered
  correctly, \<open>(23 / 40) * 100\<close> is the double just below 57.5 and the score is 57, while
  \<open>Math.round(100 * 23 / 40)\<close> is 58.
\<close>

theorem calculateScore_not_as_specified:
  "length (filter (\<lambda>q. qtype q = ''choice'') (quiz_of 40)) = 40
   \<and> length (filter (\<lambda>q. qtype q = ''choice'' \<and> answers_first 23 (qid q) = Some (answer q))
        (quiz_of 40)) = 23
   \<and> score_set (calculateScore_003 (quiz_of 40) (answers_first 23) (Some lesson_1) no_session) = 57
   \<and> score_set (calculateScore_002 (quiz_of 40) (answers_first 23) (Some lesson_1) no_session) = 57
   \<and> score_as_specified 23 40 = 58"
  by (simp only: score_set_003 score_set_002 quiz_40_counts finalScore_23_40
      score_as_specified_23_40)

text \<open>
  C2, amended. In both versions of \<open>calculateScore\<close>, with \<open>t\<close> the number of questions
  of type \<open>choice\<close> and \<open>c\<close> the number of those whose recorded answer equals the
  question's answer, the loop ends with the counters \<open>c\<close> and \<open>t\<close> and with the current
  wrong list holding, in order, every question that is not a correctly answered choice
  question; the score set is 100 when \<open>t = 0\<close> and otherwise
  \<open>Math.round((c / t) * 100)\<close>, the quotient and then the product each rounded to a
  double.
\<close>

theorem calculateScore_score:
  "(let t = length (filter (\<lambda>q. qtype q = ''choice'') quiz);
        c = length (filter (\<lambda>q. qtype q = ''choice'' \<and> answers (qid q) = Some (answer q))
              quiz);
        wrong = filter (\<lambda>q. \<not> (qtype q = ''choice'' \<and> answers (qid q) = Some (answer q)))
              quiz;
        shown = (if t = 0 then 100
                 else Math_round (double_mul (double_div (of_nat c) (of_nat t)) 100))
    in forEach_question answers quiz (0, 0, []) = (c, t, wrong)
       \<and> score_set (calculateScore_003 quiz answers selected se) = shown
       \<and> score_set (calculateScore_002 quiz answers selected se) = shown)"
  by (simp add: Let_def forEach_question_init score_set_003 score_set_002 finalScore_def)


section \<open>The wrong list and the recorded scores\<close>

lemma distinct_qid_append_new:
  assumes "distinct (map qid wqs)" and "distinct (map qid qs)"
  shows "distinct (map qid (wqs @ filter (\<lambda>q. qid q \<notin> set (map qid wqs)) (filter P qs)))"
proof -
  have "distinct (map qid (filter (\<lambda>q. qid q \<notin> set (map qid wqs)) (filter P qs)))"
    using assms(2) by (simp add: distinct_map_filter)
  moreover have "set (map qid wqs) \<inter>
      set (map qid (filter (\<lambda>q. qid q \<notin> set (map qid wqs)) (filter P qs))) = {}"
    by auto (metis imageI)
  ultimately show ?thesis using assms(1) by simp
qed

lemma user_saveUserProgress: "user (saveUserProgress updated se) = Some updated"
  by (simp add: saveUserProgress_def)

lemma clearWrongQuestion_user:
  "user se = Some u \<Longrightarrow>
   user (clearWrongQuestion i se) =
     Some (u\<lparr>wrongQuestions := filter (\<lambda>q. qid q \<noteq> i) (wrongQuestions u)\<rparr>)"
  by (simp add: clearWrongQuestion_def saveUserProgress_def)

text \<open>
  C8. Let the questions of the quiz have pairwise distinct ids and the user's wrong list
  hold no two entries with the same id. Then after either version of \<open>calculateScore\<close>
  the wrong list is the old one followed by the questions of the current wrong list
  whose id was not on it, and its ids are still pairwise distinct; and
  \<open>clearWrongQuestion(i)\<close> leaves exactly the entries whose id differs from \<open>i\<close>, in
  their order, so that the entries removed are those with id \<open>i\<close>.
\<close>

theorem wrongQuestions_ids_unique:
  assumes "distinct (map qid quiz)"
    and "user se = Some u"
    and "distinct (map qid (wrongQuestions u))"
    and "selected = Some l"
  shows
    "(let wrong = filter (\<lambda>q. \<not> (qtype q = ''choice'' \<and> answers (qid q) = Some (answer q)))
              quiz;
          added = filter (\<lambda>q. qid q \<notin> set (map qid (wrongQuestions u))) wrong
      in (\<exists>u3. user (session_after (calculateScore_003 quiz answers selected se))
                 = Some u3
              \<and> wrongQuestions u3 = wrongQuestions u @ added
              \<and> distinct (map qid (wrongQuestions u3)))
       \<and> (\<exists>u2. user (session_after (calculateScore_002 quiz answers selected se))
                 = Some u2
              \<and> wrongQuestions u2 = wrongQuestions u @ added
              \<and> distinct (map qid (wrongQuestions u2)))
       \<and> (\<exists>u1. user (clearWrongQuestion i se) = Some u1
              \<and> wrongQuestions u1 = filter (\<lambda>q. qid q \<noteq> i) (wrongQuestions u)
              \<and> set (wrongQuestions u) - set (wrongQuestions u1)
                   = {q \<in> set (wrongQuestions u). qid q = i}
              \<and> distinct (map qid (wrongQuestions u1))))"
proof -
  let ?wrong = "filter (\<lambda>q. \<not> (qtype q = ''choice'' \<and> answers (qid q) = Some (answer q)))
      quiz"
  let ?added = "filter (\<lambda>q. qid q \<notin> set (map qid (wrongQuestions u))) ?wrong"
  have d: "distinct (map qid (wrongQuestions u @ ?added))"
    using distinct_qid_append_new[OF assms(3) assms(1)] .
  have a3: "\<exists>u3. user (session_after (calculateScore_003 quiz answers selected se))
                 = Some u3
              \<and> wrongQuestions u3 = wrongQuestions u @ ?added
              \<and> distinct (map qid (wrongQuestions u3))"
    using d by (simp add: session_after_003[OF assms(2) assms(4)] user_saveUserProgress)
  have a2: "\<exists>u2. user (session_after (calculateScore_002 quiz answers selected se))
                 = Some u2
              \<and> wrongQuestions u2 = wrongQuestions u @ ?added
              \<and> distinct (map qid (wrongQuestions u2))"
    using d by (simp add: session_after_002[OF assms(2) assms(4)] user_saveUserProgress)
  have "set (wrongQuestions u) - set (filter (\<lambda>q. qid q \<noteq> i) (wrongQuestions u))
      = {q \<in> set (wrongQuestions u). qid q = i}"
    by auto
  moreover have "distinct (map qid (filter (\<lambda>q. qid q \<noteq> i) (wrongQuestions u)))"
    using assms(3) by (simp add: distinct_map_filter)
  ultimately have a1: "\<exists>u1. user (clearWrongQuestion i se) = Some u1
              \<and> wrongQuestions u1 = filter (\<lambda>q. qid q \<noteq> i) (wrongQuestions u)
              \<and> set (wrongQuestions u) - set (wrongQuestions u1)
                   = {q \<in> set (wrongQuestions u). qid q = i}
              \<and> distinct (map qid (wrongQuestions u1))"
    by (simp add: clearWrongQuestion_user[OF assms(2)])
  show ?thesis unfolding Let_def using a3 a2 a1 by blast
qed

lemma quiz_3_distinct: "distinct (map qid (quiz_of 3))"
  by code_simp

lemma user_0_wrong_distinct: "distinct (map qid (wrongQuestions user_0))"
  by code_simp

lemma quiz_3_added:
  "filter (\<lambda>q. qid q \<notin> set (map qid (wrongQuestions user_0)))
     (filter (\<lambda>q. \<not> (qtype q = ''choice'' \<and> answers_first 1 (qid q) = Some (answer q)))
        (quiz_of 3))
   = [choice_question 1, choice_question 2]"
  by code_simp

lemma user_0_cleared:
  "filter (\<lambda>q. qid q \<noteq> ''0'') (wrongQuestions user_0) = []"
  by code_simp

text \<open>
  The user of \<open>session_0\<close> has question 0 on the wrong list and submits a quiz of the
  questions 0, 1, 2 with only question 0 answered (correctly): questions 1 and 2 are
  added. Clearing id \<open>0\<close> empties the old list.
\<close>

theorem wrongQuestions_ids_unique_witness:
  "distinct (map qid (quiz_of 3))
   \<and> user session_0 = Some user_0
   \<and> distinct (map qid (wrongQuestions user_0))
   \<and> (\<exists>u3. user (session_after
                (calculateScore_003 (quiz_of 3) (answers_first 1) (Some lesson_1) session_0))
              = Some u3
           \<and> wrongQuestions u3 = [choice_question 0, choice_question 1, choice_question 2]
           \<and> distinct (map qid (wrongQuestions u3)))
   \<and> (\<exists>u1. user (clearWrongQuestion ''0'' session_0) = Some u1 \<and> wrongQuestions u1 = [])"
proof -
  have h1: "distinct (map qid (quiz_of 3))" by (rule quiz_3_distinct)
  have h2: "user session_0 = Some user_0" by (simp add: session_0_def)
  have h3: "distinct (map qid (wrongQuestions user_0))" by (rule user_0_wrong_distinct)
  have h4: "Some lesson_1 = Some lesson_1" by simp
  have w: "wrongQuestions user_0 = [choice_question 0]" by (simp add: user_0_def)
  note t = wrongQuestions_ids_unique[OF h1 h2 h3 h4, of "answers_first 1" "''0''",
      unfolded Let_def quiz_3_added user_0_cleared]
  from t obtain u3 where
    u3: "user (session_after
            (calculateScore_003 (quiz_of 3) (answers_first 1) (Some lesson_1) session_0))
          = Some u3"
      "wrongQuestions u3 = wrongQuestions user_0 @ [choice_question 1, choice_question 2]"
      "distinct (map qid (wrongQuestions u3))"
    by blast
  from t obtain u1 where
    u1: "user (clearWrongQuestion ''0'' session_0) = Some u1" "wrongQuestions u1 = []"
    by blast
  from u3 w have "wrongQuestions u3 = [choice_question 0, choice_question 1, choice_question 2]"
    by simp
  with h1 h2 h3 u3 u1 show ?thesis by blast
qed

lemma currentBest_of_eq: "currentBest_of stored = (case stored of None \<Rightarrow> 0 | Some v \<Rightarrow> v)"
  by (simp add: currentBest_of_def split: option.splits)

lemma recorded_score_step_003:
  "recorded_score se k \<le> recorded_score (session_after (calculateScore_003 qs ua sl se)) k"
proof (cases "user se")
  case None
  then show ?thesis by (simp add: session_after_unchanged_003)
next
  case (Some u)
  show ?thesis
  proof (cases sl)
    case None
    then show ?thesis by (simp add: session_after_unchanged_003)
  next
    case (Some l)
    show ?thesis
      using \<open>user se = Some u\<close>
      by (simp add: session_after_003[OF \<open>user se = Some u\<close> Some] recorded_score_def
          saveUserProgress_def currentBest_of_eq)
  qed
qed

lemma recorded_score_step_002:
  "recorded_score se k \<le> recorded_score (session_after (calculateScore_002 qs ua sl se)) k"
proof (cases "user se")
  case None
  then show ?thesis by (simp add: session_after_unchanged_002)
next
  case (Some u)
  show ?thesis
  proof (cases sl)
    case None
    then show ?thesis by (simp add: session_after_unchanged_002)
  next
    case (Some l)
    show ?thesis
      using \<open>user se = Some u\<close>
      by (simp add: session_after_002[OF \<open>user se = Some u\<close> Some] recorded_score_def
          saveUserProgress_def currentBest_of_eq)
  qed
qed

lemma recorded_score_submit_all:
  assumes step: "\<And>qs ua sl se. recorded_score se k \<le> recorded_score (session_after (calc qs ua sl se)) k"
  shows "recorded_score se k \<le> recorded_score (submit_all calc subs se) k"
proof (induction subs arbitrary: se)
  case Nil
  show ?case by simp
next
  case (Cons sub subs)
  obtain qs ua sl where sub: "sub = (qs, ua, sl)" by (cases sub)
  have "recorded_score se k \<le> recorded_score (session_after (calc qs ua sl se)) k"
    by (rule step)
  also have "\<dots> \<le> recorded_score (submit_all calc subs (session_after (calc qs ua sl se))) k"
    by (rule Cons.IH)
  finally show ?case by (simp add: sub)
qed

text \<open>
  C9. When a user is logged in and a lesson is selected, either version of
  \<open>calculateScore\<close> stores for that lesson the maximum of the score on record (an absent
  entry read as 0) and the score just computed, and leaves the entries of the other
  lessons alone; and over any run of submissions, whatever the quizzes, answers and
  selected lessons, the score on record for any lesson never decreases.
\<close>

theorem quizScores_monotone:
  assumes "user se = Some u" and "selected = Some l"
  shows
    "(\<exists>u3. user (session_after (calculateScore_003 quiz answers selected se)) = Some u3
         \<and> quizScores u3 (lesson_id l)
             = Some (max (case quizScores u (lesson_id l) of None \<Rightarrow> 0 | Some v \<Rightarrow> v)
                         (score_set (calculateScore_003 quiz answers selected se)))
         \<and> (\<forall>k. k \<noteq> lesson_id l \<longrightarrow> quizScores u3 k = quizScores u k))
     \<and> (\<exists>u2. user (session_after (calculateScore_002 quiz answers selected se)) = Some u2
         \<and> quizScores u2 (lesson_id l)
             = Some (max (case quizScores u (lesson_id l) of None \<Rightarrow> 0 | Some v \<Rightarrow> v)
                         (score_set (calculateScore_002 quiz answers selected se)))
         \<and> (\<forall>k. k \<noteq> lesson_id l \<longrightarrow> quizScores u2 k = quizScores u k))
     \<and> (\<forall>k subs. recorded_score se k \<le> recorded_score (submit_all calculateScore_003 subs se) k)
     \<and> (\<forall>k subs. recorded_score se k \<le> recorded_score (submit_all calculateScore_002 subs se) k)"
proof -
  have a3: "\<exists>u3. user (session_after (calculateScore_003 quiz answers selected se)) = Some u3
         \<and> quizScores u3 (lesson_id l)
             = Some (max (case quizScores u (lesson_id l) of None \<Rightarrow> 0 | Some v \<Rightarrow> v)
                         (score_set (calculateScore_003 quiz answers selected se)))
         \<and> (\<forall>k. k \<noteq> lesson_id l \<longrightarrow> quizScores u3 k = quizScores u k)"
    by (simp add: session_after_003[OF assms] user_saveUserProgress currentBest_of_eq)
  have a2: "\<exists>u2. user (session_after (calculateScore_002 quiz answers selected se)) = Some u2
         \<and> quizScores u2 (lesson_id l)
             = Some (max (case quizScores u (lesson_id l) of None \<Rightarrow> 0 | Some v \<Rightarrow> v)
                         (score_set (calculateScore_002 quiz answers selected se)))
         \<and> (\<forall>k. k \<noteq> lesson_id l \<longrightarrow> quizScores u2 k = quizScores u k)"
    by (simp add: session_after_002[OF assms] user_saveUserProgress currentBest_of_eq)
  have s3: "\<forall>k subs. recorded_score se k \<le> recorded_score (submit_all calculateScore_003 subs se) k"
    using recorded_score_submit_all[of _ calculateScore_003, OF recorded_score_step_003] by blast
  have s2: "\<forall>k subs. recorded_score se k \<le> recorded_score (submit_all calculateScore_002 subs se) k"
    using recorded_score_submit_all[of _ calculateScore_002, OF recorded_score_step_002] by blast
  from a3 a2 s3 s2 show ?thesis by blast
qed

lemma finalScore_1_2: "finalScore 1 2 = 50"
  by code_simp

lemma quiz_2_counts:
  "length (filter (\<lambda>q. qtype q = ''choice'') (quiz_of 2)) = 2"
  "length (filter (\<lambda>q. qtype q = ''choice'' \<and> answers_first 1 (qid q) = Some (answer q))
     (quiz_of 2)) = 1"
  by code_simp+

text \<open>
  The user of \<open>session_0\<close> has 80 on record for lesson 1 and now scores 50 on it: the
  record stays 80.
\<close>

theorem quizScores_monotone_witness:
  "user session_0 = Some user_0
   \<and> score_set (calculateScore_003 (quiz_of 2) (answers_first 1) (Some lesson_1) session_0) = 50
   \<and> (\<exists>u3. user (session_after
                (calculateScore_003 (quiz_of 2) (answers_first 1) (Some lesson_1) session_0))
              = Some u3
           \<and> quizScores u3 1 = Some 80)"
proof -
  have h1: "user session_0 = Some user_0" by (simp add: session_0_def)
  have h2: "Some lesson_1 = Some lesson_1" by simp
  have sc: "score_set (calculateScore_003 (quiz_of 2) (answers_first 1) (Some lesson_1) session_0) = 50"
    by (simp only: score_set_003 quiz_2_counts finalScore_1_2)
  have l1: "lesson_id lesson_1 = 1" by (simp add: lesson_1_def)
  have q: "quizScores user_0 1 = Some 80" by (simp add: user_0_def)
  from quizScores_monotone[OF h1 h2, of "quiz_of 2" "answers_first 1"]
  obtain u3 where
    u3: "user (session_after
        (calculateScore_003 (quiz_of 2) (answers_first 1) (Some lesson_1) session_0)) = Some u3"
    and st: "quizScores u3 (lesson_id lesson_1)
       = Some (max (case quizScores user_0 (lesson_id lesson_1) of None \<Rightarrow> 0 | Some v \<Rightarrow> v)
            (score_set (calculateScore_003 (quiz_of 2) (answers_first 1) (Some lesson_1) session_0)))"
    by blast
  have "quizScores u3 1 = Some 80"
    using st unfolding l1 q sc by simp
  with h1 sc u3 show ?thesis by blast
qed

section \<open>Properties of the cache and of the AI client\<close>

lemma retryWithBackoff_2:
  "retryWithBackoff fn 2 s =
     (case fn s of
        (Inr v, s1) \<Rightarrow> \<lparr>result = Inr v, final = s1, attempts = [Inr v], waits = []\<rparr>
      | (Inl e, s1) \<Rightarrow>
          if isQuotaError e
          then (case fn s1 of
                  (r2, s2) \<Rightarrow> \<lparr>result = r2, final = s2, attempts = [Inl e, r2], waits = [2000]\<rparr>)
          else \<lparr>result = Inl e, final = s1, attempts = [Inl e], waits = []\<rparr>)"
proof -
  have inner: "retryWithBackoff_loop fn 2 1 d s1 =
      (case fn s1 of (r2, s2) \<Rightarrow> \<lparr>result = r2, final = s2, attempts = [r2], waits = []\<rparr>)"
    for d s1
    by (subst retryWithBackoff_loop.simps) (simp split: prod.splits sum.splits)
  show ?thesis
    unfolding retryWithBackoff_def
    by (subst retryWithBackoff_loop.simps) (simp add: inner Let_def split: prod.splits sum.splits)
qed

lemma result_retry_2:
  "result (retryWithBackoff fn 2 s) =
     (case fst (fn s) of
        Inr v \<Rightarrow> Inr v
      | Inl e \<Rightarrow> if isQuotaError e then fst (fn (snd (fn s))) else Inl e)"
  by (simp add: retryWithBackoff_2 split: prod.splits sum.splits)

lemma final_retry_2:
  "final (retryWithBackoff fn 2 s) =
     (case fst (fn s) of
        Inr v \<Rightarrow> snd (fn s)
      | Inl e \<Rightarrow> if isQuotaError e then snd (fn (snd (fn s))) else snd (fn s))"
  by (simp add: retryWithBackoff_2 split: prod.splits sum.splits)

lemma getCachedData_hit:
  "ls w (''cache_'' @ k) = Some saved \<Longrightarrow> saved \<noteq> [] \<Longrightarrow> getCachedData P w k = JSON_parse P saved"
  by (simp add: getCachedData_def)

lemma await_generateContent_eq:
  "await_generateContent P w =
     (generateContent P (requests w),
      w\<lparr>requests := Suc (requests w),
        pending := removeAll (requests w) (pending w),
        peak := max (peak w) (Suc (length (pending w))),
        events := events w @ [Issue (requests w), Settle (requests w)]\<rparr>)"
  by (simp add: await_generateContent_def issue_request_def settle_request_def)

text \<open>
  C6. For every key \<open>k\<close> and every value \<open>v\<close> that JSON serialises (\<open>JSON.parse\<close> gives
  \<open>v\<close> back from the text \<open>JSON.stringify\<close> prints for it, and that text is not
  empty), \<open>getCachedData(k)\<close> after \<open>setCachedData(k, v)\<close> returns \<open>v\<close>.
  \<open>setCachedData\<close> writes the text under \<open>'cache_' + k\<close> and changes no other key and
  nothing else; what \<open>getCachedData\<close> returns is determined by the entry under
  \<open>'cache_' + k\<close>, and it is \<open>null\<close> when that key is absent.
\<close>

theorem cache_round_trip:
  assumes "JSON_parse P (JSON_stringify P v) = Inr v" and "JSON_stringify P v \<noteq> []"
  shows
    "getCachedData P (setCachedData P k v w) k = Inr v
     \<and> ls (setCachedData P k v w) (''cache_'' @ k) = Some (JSON_stringify P v)
     \<and> (\<forall>k'. k' \<noteq> ''cache_'' @ k \<longrightarrow> ls (setCachedData P k v w) k' = ls w k')
     \<and> requests (setCachedData P k v w) = requests w
     \<and> pending (setCachedData P k v w) = pending w
     \<and> peak (setCachedData P k v w) = peak w
     \<and> events (setCachedData P k v w) = events w
     \<and> (\<forall>w'. ls w' (''cache_'' @ k) = ls w (''cache_'' @ k)
            \<longrightarrow> getCachedData P w' k = getCachedData P w k)
     \<and> (ls w (''cache_'' @ k) = None \<longrightarrow> getCachedData P w k = Inr JNull)"
  using assms by (simp add: getCachedData_def setCachedData_def)

lemma sample_round_trip:
  "JSON_parse (sample_platform questions_service)
     (JSON_stringify (sample_platform questions_service) (JArr [question_json]))
   = Inr (JArr [question_json])"
  "JSON_stringify (sample_platform questions_service) (JArr [question_json]) \<noteq> []"
  "ls (world_with []) (''cache_'' @ ''questions_lesson_1'') = None"
  "''cache_questions_lesson_2'' \<noteq> ''cache_'' @ ''questions_lesson_1''"
  by code_simp+

text \<open>
  A cached question list is read back as it was written; before it is written the key
  is absent and \<open>null\<close> is returned; the entry of lesson 2 is not touched.
\<close>

theorem cache_round_trip_witness:
  "JSON_parse (sample_platform questions_service)
     (JSON_stringify (sample_platform questions_service) (JArr [question_json]))
   = Inr (JArr [question_json])
   \<and> JSON_stringify (sample_platform questions_service) (JArr [question_json]) \<noteq> []
   \<and> getCachedData (sample_platform questions_service)
        (setCachedData (sample_platform questions_service) ''questions_lesson_1''
           (JArr [question_json]) (world_with []))
        ''questions_lesson_1''
      = Inr (JArr [question_json])
   \<and> ls (world_with []) (''cache_'' @ ''questions_lesson_1'') = None
   \<and> getCachedData (sample_platform questions_service) (world_with []) ''questions_lesson_1''
      = Inr JNull
   \<and> ''cache_questions_lesson_2'' \<noteq> ''cache_'' @ ''questions_lesson_1''
   \<and> ls (setCachedData (sample_platform questions_service) ''questions_lesson_1''
           (JArr [question_json]) (world_with [])) ''cache_questions_lesson_2''
      = ls (world_with []) ''cache_questions_lesson_2''"
  using cache_round_trip[OF sample_round_trip(1,2), of "''questions_lesson_1''" "world_with []"]
    sample_round_trip
  by blast

section \<open>Generating questions through the cache\<close>

lemma questions_cache_hit_001:
  assumes "ls w (''cache_'' @ ''questions_lesson_'' @ Number_toString lessonId) = Some saved"
    and "saved \<noteq> []" and "JSON_parse P saved = Inr cached" and "truthy cached"
  shows "generateQuestionsFromContent_001 P w lessonId c False = (Inr cached, w)"
  using assms
  by (simp add: generateQuestionsFromContent_001_def generateQuestionsFromContent_001_begin_def
      getCachedData_hit Let_def)

lemma questions_cache_hit_000:
  assumes "ls w (''cache_'' @ ''questions_lesson_'' @ Number_toString lessonId) = Some saved"
    and "saved \<noteq> []" and "JSON_parse P saved = Inr cached" and "truthy cached"
  shows "generateQuestionsFromContent_000 P w lessonId c False = (Inr cached, w)"
  using assms
  by (simp add: generateQuestionsFromContent_000_def getCachedData_hit Let_def)

lemma questions_force_001:
  "generateQuestionsFromContent_001 P w lessonId c True =
     generateQuestionsFromContent_001_resume P lessonId (requests w) (snd (issue_request w))"
  by (simp add: generateQuestionsFromContent_001_def generateQuestionsFromContent_001_begin_def
      issue_request_def Let_def)

lemma questions_force_000:
  "generateQuestionsFromContent_000 P w lessonId c True =
     (let run = retryWithBackoff
                  (questions_attempt P (''questions_lesson_'' @ Number_toString lessonId)) 2 w
      in (result run, final run))"
  by (simp add: generateQuestionsFromContent_000_def Let_def)

lemma questions_attempt_requests:
  "requests (snd (questions_attempt P key w)) = Suc (requests w)"
  by (simp add: questions_attempt_def await_generateContent_eq questions_of_response_def
      setCachedData_def split: sum.splits prod.splits)

lemma questions_force_requests_001:
  "requests (snd (generateQuestionsFromContent_001 P w lessonId c True)) = Suc (requests w)"
  by (simp add: questions_force_001 generateQuestionsFromContent_001_resume_def
      issue_request_def settle_request_def questions_of_response_def setCachedData_def Let_def
      split: sum.splits prod.splits)

lemma questions_force_requests_000:
  "requests w < requests (snd (generateQuestionsFromContent_000 P w lessonId c True))"
proof -
  let ?fn = "questions_attempt P (''questions_lesson_'' @ Number_toString lessonId)"
  obtain r1 w1 where f1: "?fn w = (r1, w1)" by (cases "?fn w")
  obtain r2 w2 where f2: "?fn w1 = (r2, w2)" by (cases "?fn w1")
  have q1: "requests w1 = Suc (requests w)"
    using questions_attempt_requests[of P "''questions_lesson_'' @ Number_toString lessonId" w]
    unfolding f1 by simp
  have q2: "requests w2 = Suc (requests w1)"
    using questions_attempt_requests[of P "''questions_lesson_'' @ Number_toString lessonId" w1]
    unfolding f2 by simp
  show ?thesis
    using f1 f2 q1 q2
    by (simp add: questions_force_000 retryWithBackoff_2 Let_def split: sum.splits)
qed

lemma questions_attempt_ls_irrelevant:
  "fst (questions_attempt P key (w\<lparr>ls := m\<rparr>)) = fst (questions_attempt P key w)"
  by (simp add: questions_attempt_def await_generateContent_eq questions_of_response_def
      split: sum.splits prod.splits)

lemma questions_attempt_snd_ls:
  "snd (questions_attempt P key (w\<lparr>ls := m\<rparr>)) =
     (snd (questions_attempt P key w))\<lparr>ls := ls (snd (questions_attempt P key (w\<lparr>ls := m\<rparr>)))\<rparr>"
  by (simp add: questions_attempt_def await_generateContent_eq questions_of_response_def
      setCachedData_def split: sum.splits prod.splits)

lemma questions_force_skips_cache_001:
  "fst (generateQuestionsFromContent_001 P (w\<lparr>ls := m\<rparr>) lessonId c True)
   = fst (generateQuestionsFromContent_001 P w lessonId c True)"
  by (simp add: questions_force_001 generateQuestionsFromContent_001_resume_def
      issue_request_def settle_request_def questions_of_response_def Let_def
      split: sum.splits prod.splits)

lemma questions_force_skips_cache_000:
  "fst (generateQuestionsFromContent_000 P (w\<lparr>ls := m\<rparr>) lessonId c True)
   = fst (generateQuestionsFromContent_000 P w lessonId c True)"
proof -
  let ?fn = "questions_attempt P (''questions_lesson_'' @ Number_toString lessonId)"
  have r1: "fst (?fn (w\<lparr>ls := m\<rparr>)) = fst (?fn w)"
    by (rule questions_attempt_ls_irrelevant)
  have "fst (?fn (snd (?fn (w\<lparr>ls := m\<rparr>))))
      = fst (?fn ((snd (?fn w))\<lparr>ls := ls (snd (?fn (w\<lparr>ls := m\<rparr>)))\<rparr>))"
    using questions_attempt_snd_ls[where P = P and w = w and m = m
        and key = "''questions_lesson_'' @ Number_toString lessonId"]
    by simp
  also have "\<dots> = fst (?fn (snd (?fn w)))"
    by (rule questions_attempt_ls_irrelevant)
  finally have r2: "fst (?fn (snd (?fn (w\<lparr>ls := m\<rparr>)))) = fst (?fn (snd (?fn w)))" .
  have "result (retryWithBackoff ?fn 2 (w\<lparr>ls := m\<rparr>)) = result (retryWithBackoff ?fn 2 w)"
    unfolding result_retry_2 r1 r2 ..
  then show ?thesis
    unfolding questions_force_000 Let_def by simp
qed

lemma questions_fresh_001:
  assumes "generateContent P (requests w) = Inr r"
    and "JSON_parse P (text_to_parse r) = Inr data"
  shows "fst (generateQuestionsFromContent_001 P w lessonId c True) = Inr data
    \<and> ls (snd (generateQuestionsFromContent_001 P w lessonId c True))
         (''cache_'' @ ''questions_lesson_'' @ Number_toString lessonId)
       = Some (JSON_stringify P data)"
  using assms
  by (simp add: questions_force_001 generateQuestionsFromContent_001_resume_def
      issue_request_def settle_request_def questions_of_response_def setCachedData_def Let_def)

lemma questions_fresh_000:
  assumes "generateContent P (requests w) = Inr r"
    and "JSON_parse P (text_to_parse r) = Inr data"
  shows "fst (generateQuestionsFromContent_000 P w lessonId c True) = Inr data
    \<and> ls (snd (generateQuestionsFromContent_000 P w lessonId c True))
         (''cache_'' @ ''questions_lesson_'' @ Number_toString lessonId)
       = Some (JSON_stringify P data)"
  using assms
  by (simp add: questions_force_000 retryWithBackoff_2 questions_attempt_def
      await_generateContent_eq questions_of_response_def setCachedData_def Let_def)

lemma null_cached_001:
  "ls (world_with [(''cache_questions_lesson_1'', ''null'')]) ''cache_questions_lesson_1''
     = Some ''null''"
  "requests (world_with [(''cache_questions_lesson_1'', ''null'')]) = 0"
  "requests (snd (generateQuestionsFromContent_001 (sample_platform questions_service)
       (world_with [(''cache_questions_lesson_1'', ''null'')]) 1 ''content'' False)) = 1"
  "requests (snd (generateQuestionsFromContent_000 (sample_platform questions_service)
       (world_with [(''cache_questions_lesson_1'', ''null'')]) 1 ''content'' False)) = 1"
  by code_simp+

lemma offline_forced_001:
  "fst (generateQuestionsFromContent_001 (sample_platform offline_service)
       (world_with [(''cache_questions_lesson_1'', ''[]'')]) 1 ''content'' True) = Inr (JArr [])"
  "ls (snd (generateQuestionsFromContent_001 (sample_platform offline_service)
       (world_with [(''cache_questions_lesson_1'', ''null'')]) 1 ''content'' True))
     ''cache_questions_lesson_1'' = Some ''null''"
  "fst (generateQuestionsFromContent_001 (sample_platform offline_service)
       (world_with [(''cache_questions_lesson_1'', ''null'')]) 1 ''content'' True) = Inr (JArr [])"
  by code_simp+

text \<open>
  C3, as stated, fails. With the text \<open>null\<close> under \<open>cache_questions_lesson_1\<close> and
  \<open>forceNew\<close> false, both versions issue a request although localStorage holds a value
  under the key. With \<open>forceNew\<close> true and a request that is rejected, the version of
  part_001 returns \<open>[]\<close> and leaves the cache entry as it was.
\<close>

theorem generateQuestionsFromContent_not_as_specified:
  "ls (world_with [(''cache_questions_lesson_1'', ''null'')]) ''cache_questions_lesson_1''
     = Some ''null''
   \<and> requests (world_with [(''cache_questions_lesson_1'', ''null'')]) = 0
   \<and> requests (snd (generateQuestionsFromContent_001 (sample_platform questions_service)
       (world_with [(''cache_questions_lesson_1'', ''null'')]) 1 ''content'' False)) = 1
   \<and> requests (snd (generateQuestionsFromContent_000 (sample_platform questions_service)
       (world_with [(''cache_questions_lesson_1'', ''null'')]) 1 ''content'' False)) = 1
   \<and> fst (generateQuestionsFromContent_001 (sample_platform offline_service)
       (world_with [(''cache_questions_lesson_1'', ''null'')]) 1 ''content'' True) = Inr (JArr [])
   \<and> ls (snd (generateQuestionsFromContent_001 (sample_platform offline_service)
       (world_with [(''cache_questions_lesson_1'', ''null'')]) 1 ''content'' True))
     ''cache_questions_lesson_1'' = Some ''null''"
  using null_cached_001 offline_forced_001 by blast

text \<open>
  C3, amended. In both versions of \<open>generateQuestionsFromContent\<close>: when \<open>forceNew\<close> is
  false and localStorage holds under \<open>cache_questions_lesson_<lessonId>\<close> a non-empty
  text that parses to a truthy value (every array is one), that value is returned, no
  request is issued and nothing is written. When \<open>forceNew\<close> is true a request is
  issued whatever localStorage holds, and the value returned does not depend on
  localStorage; and when the first request succeeds and its text parses, the parsed
  value is returned and is by then the cache entry.
\<close>

theorem generateQuestionsFromContent_cache:
  "(\<forall>saved cached.
       ls w (''cache_'' @ ''questions_lesson_'' @ Number_toString lessonId) = Some saved
       \<and> saved \<noteq> [] \<and> JSON_parse P saved = Inr cached \<and> truthy cached
       \<longrightarrow> generateQuestionsFromContent_001 P w lessonId c False = (Inr cached, w)
         \<and> generateQuestionsFromContent_000 P w lessonId c False = (Inr cached, w))
   \<and> requests w < requests (snd (generateQuestionsFromContent_001 P w lessonId c True))
   \<and> requests w < requests (snd (generateQuestionsFromContent_000 P w lessonId c True))
   \<and> (\<forall>m. fst (generateQuestionsFromContent_001 P (w\<lparr>ls := m\<rparr>) lessonId c True)
          = fst (generateQuestionsFromContent_001 P w lessonId c True)
        \<and> fst (generateQuestionsFromContent_000 P (w\<lparr>ls := m\<rparr>) lessonId c True)
          = fst (generateQuestionsFromContent_000 P w lessonId c True))
   \<and> (\<forall>r data.
        generateContent P (requests w) = Inr r \<and> JSON_parse P (text_to_parse r) = Inr data
        \<longrightarrow> fst (generateQuestionsFromContent_001 P w lessonId c True) = Inr data
          \<and> ls (snd (generateQuestionsFromContent_001 P w lessonId c True))
               (''cache_'' @ ''questions_lesson_'' @ Number_toString lessonId)
             = Some (JSON_stringify P data)
          \<and> fst (generateQuestionsFromContent_000 P w lessonId c True) = Inr data
          \<and> ls (snd (generateQuestionsFromContent_000 P w lessonId c True))
               (''cache_'' @ ''questions_lesson_'' @ Number_toString lessonId)
             = Some (JSON_stringify P data))"
proof -
  have hit: "\<forall>saved cached.
       ls w (''cache_'' @ ''questions_lesson_'' @ Number_toString lessonId) = Some saved
       \<and> saved \<noteq> [] \<and> JSON_parse P saved = Inr cached \<and> truthy cached
       \<longrightarrow> generateQuestionsFromContent_001 P w lessonId c False = (Inr cached, w)
         \<and> generateQuestionsFromContent_000 P w lessonId c False = (Inr cached, w)"
    using questions_cache_hit_001 questions_cache_hit_000 by blast
  have req1: "requests w < requests (snd (generateQuestionsFromContent_001 P w lessonId c True))"
    by (simp add: questions_force_requests_001)
  have fresh: "\<forall>r data.
        generateContent P (requests w) = Inr r \<and> JSON_parse P (text_to_parse r) = Inr data
        \<longrightarrow> fst (generateQuestionsFromContent_001 P w lessonId c True) = Inr data
          \<and> ls (snd (generateQuestionsFromContent_001 P w lessonId c True))
               (''cache_'' @ ''questions_lesson_'' @ Number_toString lessonId)
             = Some (JSON_stringify P data)
          \<and> fst (generateQuestionsFromContent_000 P w lessonId c True) = Inr data
          \<and> ls (snd (generateQuestionsFromContent_000 P w lessonId c True))
               (''cache_'' @ ''questions_lesson_'' @ Number_toString lessonId)
             = Some (JSON_stringify P data)"
    using questions_fresh_001 questions_fresh_000 by blast
  show ?thesis
    using hit req1 questions_force_requests_000 questions_force_skips_cache_001
      questions_force_skips_cache_000 fresh
    by blast
qed

lemma questions_cached_facts:
  "ls world_questions_cached (''cache_'' @ ''questions_lesson_'' @ Number_toString 1)
     = Some (json_text (JArr [question_json]))"
  "json_text (JArr [question_json]) \<noteq> []"
  "JSON_parse (sample_platform questions_service) (json_text (JArr [question_json]))
     = Inr (JArr [question_json])"
  "truthy (JArr [question_json])"
  "generateContent (sample_platform questions_service) (requests (world_with []))
     = Inr questions_response"
  "JSON_parse (sample_platform questions_service) (text_to_parse questions_response)
     = Inr (JArr [question_json])"
  by code_simp+

text \<open>
  With a question list cached for lesson 1 it is returned and the world is left as it
  was; with nothing cached and \<open>forceNew\<close> true the list the service sends is
  returned.
\<close>

theorem generateQuestionsFromContent_cache_witness:
  "ls world_questions_cached (''cache_'' @ ''questions_lesson_'' @ Number_toString 1)
     = Some (json_text (JArr [question_json]))
   \<and> json_text (JArr [question_json]) \<noteq> []
   \<and> JSON_parse (sample_platform questions_service) (json_text (JArr [question_json]))
       = Inr (JArr [question_json])
   \<and> truthy (JArr [question_json])
   \<and> generateQuestionsFromContent_001 (sample_platform questions_service)
        world_questions_cached 1 ''content'' False
      = (Inr (JArr [question_json]), world_questions_cached)
   \<and> generateQuestionsFromContent_000 (sample_platform questions_service)
        world_questions_cached 1 ''content'' False
      = (Inr (JArr [question_json]), world_questions_cached)
   \<and> generateContent (sample_platform questions_service) (requests (world_with []))
       = Inr questions_response
   \<and> JSON_parse (sample_platform questions_service) (text_to_parse questions_response)
       = Inr (JArr [question_json])
   \<and> fst (generateQuestionsFromContent_001 (sample_platform questions_service)
        (world_with []) 1 ''content'' True) = Inr (JArr [question_json])
   \<and> fst (generateQuestionsFromContent_000 (sample_platform questions_service)
        (world_with []) 1 ''content'' True) = Inr (JArr [question_json])"
proof -
  note f = questions_cached_facts
  have hit: "generateQuestionsFromContent_001 (sample_platform questions_service)
        world_questions_cached 1 ''content'' False
      = (Inr (JArr [question_json]), world_questions_cached)
   \<and> generateQuestionsFromContent_000 (sample_platform questions_service)
        world_questions_cached 1 ''content'' False
      = (Inr (JArr [question_json]), world_questions_cached)"
    using generateQuestionsFromContent_cache[of world_questions_cached 1
        "sample_platform questions_service" "''content''"] f(1-4)
    by blast
  have fresh: "fst (generateQuestionsFromContent_001 (sample_platform questions_service)
        (world_with []) 1 ''content'' True) = Inr (JArr [question_json])
   \<and> fst (generateQuestionsFromContent_000 (sample_platform questions_service)
        (world_with []) 1 ''content'' True) = Inr (JArr [question_json])"
    using generateQuestionsFromContent_cache[of "world_with []" 1
        "sample_platform questions_service" "''content''"] f(5-6)
    by blast
  from f hit fresh show ?thesis by blast
qed

section \<open>Searching exam trends through the cache\<close>

lemma of_char_digit_char: "0 \<le> d \<Longrightarrow> d < 10 \<Longrightarrow> (of_char (digit_char d) :: int) = 48 + d"
  by (simp add: digit_char_def)

lemma digit_of_digit_char: "0 \<le> d \<Longrightarrow> d < 10 \<Longrightarrow> digit_of (digit_char d) = Some d"
  by (simp add: digit_of_def of_char_digit_char Let_def)

lemma digit_char_not_ws: "0 \<le> d \<Longrightarrow> d < 10 \<Longrightarrow> \<not> is_white_space (digit_char d)"
  by (simp add: is_white_space_def of_char_digit_char)

lemma digit_char_neq:
  assumes "0 \<le> d" "d < 10" and c: "(of_char c :: int) < 48 \<or> 57 < (of_char c :: int)"
  shows "digit_char d \<noteq> c"
proof
  assume "digit_char d = c"
  then have "(of_char (digit_char d) :: int) = of_char c" by simp
  with of_char_digit_char[OF assms(1,2)] c assms(1,2) show False by simp
qed

lemma digits_of_nonempty: "digits_of n \<noteq> []"
  by (subst digits_of.simps) simp

lemma digits_of_all_digits:
  "0 \<le> n \<Longrightarrow> \<forall>c \<in> set (digits_of n). \<exists>d. 0 \<le> d \<and> d < 10 \<and> c = digit_char d"
proof (induction n rule: digits_of.induct)
  case (1 n)
  show ?case
  proof (cases "n < 10")
    case True
    with "1.prems" show ?thesis by (subst digits_of.simps) auto
  next
    case False
    then have "0 \<le> n div 10" using "1.prems" by simp
    with "1.IH"[OF False] have ih: "\<forall>c \<in> set (digits_of (n div 10)). \<exists>d. 0 \<le> d \<and> d < 10 \<and> c = digit_char d" by simp
    have m: "\<exists>d. 0 \<le> d \<and> d < 10 \<and> digit_char (n mod 10) = digit_char d"
      by (rule exI[of _ "n mod 10"]) simp
    have "digits_of n = digits_of (n div 10) @ [digit_char (n mod 10)]"
      using False by (subst digits_of.simps) simp
    then show ?thesis using ih m by auto
  qed
qed

lemma digits_value_snoc:
  "digits_value R (Z @ [c]) = digits_value R Z * R + (case digit_of c of None \<Rightarrow> 0 | Some d \<Rightarrow> d)"
  by (simp add: digits_value_def)

lemma digits_value_digits_of: "0 \<le> n \<Longrightarrow> digits_value 10 (digits_of n) = n"
proof (induction n rule: digits_of.induct)
  case (1 n)
  show ?case
  proof (cases "n < 10")
    case True
    with "1.prems" show ?thesis
      by (subst digits_of.simps) (simp add: digits_value_def digit_of_digit_char)
  next
    case False
    then have "0 \<le> n div 10" using "1.prems" by simp
    with "1.IH"[OF False] have ih: "digits_value 10 (digits_of (n div 10)) = n div 10" by simp
    have "digits_of n = digits_of (n div 10) @ [digit_char (n mod 10)]"
      using False by (subst digits_of.simps) simp
    then show ?thesis
      by (simp add: digits_value_snoc ih digit_of_digit_char)
  qed
qed

lemma takeWhile_all: "\<forall>c \<in> set xs. P c \<Longrightarrow> takeWhile P xs = xs"
  by (induction xs) auto

lemma parseInt_Number_toString:
  assumes "0 \<le> n"
  shows "parseInt (Number_toString n) = Some n"
proof -
  let ?ds = "digits_of n"
  have all: "\<forall>c \<in> set ?ds. \<exists>d. 0 \<le> d \<and> d < 10 \<and> c = digit_char d"
    using digits_of_all_digits[OF assms] .
  obtain c0 cs where ds: "?ds = c0 # cs" using digits_of_nonempty[of n] by (cases ?ds) auto
  from all ds obtain d0 where d0: "0 \<le> d0" "d0 < 10" "c0 = digit_char d0" by auto
  have nws: "\<not> is_white_space c0" using d0 by (simp add: digit_char_not_ws)
  have nm: "c0 \<noteq> CHR ''-''" "c0 \<noteq> CHR ''+''"
    using d0 by (simp_all add: digit_char_neq)
  have nohex: "\<not> (case ?ds of c # x # _ \<Rightarrow> c = CHR ''0'' \<and> (x = CHR ''x'' \<or> x = CHR ''X'') | _ \<Rightarrow> False)"
  proof (cases cs)
    case Nil
    then show ?thesis by (simp add: ds)
  next
    case (Cons x xs)
    with all ds obtain d1 where "0 \<le> d1" "d1 < 10" "x = digit_char d1" by auto
    then have "x \<noteq> CHR ''x''" "x \<noteq> CHR ''X''" by (simp_all add: digit_char_neq)
    then show ?thesis by (simp add: ds Cons)
  qed
  have rad: "\<forall>c \<in> set ?ds. is_digit_of_radix 10 c"
    using all by (auto simp add: is_digit_of_radix_def digit_of_digit_char)
  have tw: "takeWhile (is_digit_of_radix 10) ?ds = ?ds" using rad by (rule takeWhile_all)
  have dw: "dropWhile is_white_space ?ds = ?ds" using nws by (simp add: ds)
  have "parseInt ?ds = Some (digits_value 10 ?ds)"
    unfolding parseInt_def dw Let_def
    using nohex nm tw digits_of_nonempty[of n]
    by (simp add: ds)
  then show ?thesis
    using assms by (simp add: Number_toString_def digits_value_digits_of)
qed

lemma timestamp_fresh_written:
  assumes "0 \<le> t" and "ls w ''trends_timestamp'' = Some (Number_toString t)"
  shows "timestamp_fresh w now \<longleftrightarrow> now - t < 3600000"
proof -
  have "Number_toString t \<noteq> []"
    using assms(1) digits_of_nonempty[of t] by (simp add: Number_toString_def)
  then show ?thesis
    using assms by (simp add: timestamp_fresh_def parseInt_Number_toString)
qed

lemma trends_001_cached:
  assumes "getCachedData P w ''exam_trends'' = Inr cached"
    and "truthy cached" and "timestamp_fresh w now"
  shows "searchGuangzhouExamTrends_001 P now now_after w = (Inr cached, w)"
  using assms by (simp add: searchGuangzhouExamTrends_001_def)

lemma trends_001_query:
  assumes "getCachedData P w ''exam_trends'' = Inr cached"
    and "\<not> (truthy cached \<and> timestamp_fresh w now)"
  shows "requests (snd (searchGuangzhouExamTrends_001 P now now_after w)) = Suc (requests w)"
    and "generateContent P (requests w) = Inr r \<Longrightarrow>
         fst (searchGuangzhouExamTrends_001 P now now_after w) = Inr (trends_of_response r)
         \<and> ls (snd (searchGuangzhouExamTrends_001 P now now_after w)) ''cache_exam_trends''
            = Some (JSON_stringify P (trends_of_response r))
         \<and> ls (snd (searchGuangzhouExamTrends_001 P now now_after w)) ''trends_timestamp''
            = Some (Number_toString now_after)"
  using assms
  by (auto simp add: searchGuangzhouExamTrends_001_def await_generateContent_eq
      setCachedData_def Let_def split: sum.splits)

lemma trends_000_cached:
  assumes "getCachedData P w ''exam_trends'' = Inr cached" and "truthy cached"
  shows "searchGuangzhouExamTrends_000 P w = (Inr cached, w)"
  using assms by (simp add: searchGuangzhouExamTrends_000_def)

lemma trends_attempt_requests: "requests (snd (trends_attempt P w)) = Suc (requests w)"
  by (simp add: trends_attempt_def await_generateContent_eq setCachedData_def Let_def
      split: sum.splits)

lemma trends_000_query:
  assumes "getCachedData P w ''exam_trends'' = Inr cached" and "\<not> truthy cached"
  shows "requests w < requests (snd (searchGuangzhouExamTrends_000 P w))"
    and "generateContent P (requests w) = Inr r \<Longrightarrow>
         fst (searchGuangzhouExamTrends_000 P w) = Inr (trends_of_response r)
         \<and> ls (snd (searchGuangzhouExamTrends_000 P w)) ''cache_exam_trends''
            = Some (JSON_stringify P (trends_of_response r))
         \<and> ls (snd (searchGuangzhouExamTrends_000 P w)) ''trends_timestamp''
            = ls w ''trends_timestamp''"
proof -
  have eq: "searchGuangzhouExamTrends_000 P w =
      (result (retryWithBackoff (trends_attempt P) 2 w),
       final (retryWithBackoff (trends_attempt P) 2 w))"
    using assms by (simp add: searchGuangzhouExamTrends_000_def Let_def)
  have "requests (snd (trends_attempt P (snd (trends_attempt P w)))) = Suc (Suc (requests w))"
    by (simp add: trends_attempt_requests)
  then show "requests w < requests (snd (searchGuangzhouExamTrends_000 P w))"
    by (simp add: eq final_retry_2 trends_attempt_requests split: sum.splits)
  assume "generateContent P (requests w) = Inr r"
  then have "trends_attempt P w =
      (Inr (trends_of_response r),
       setCachedData P ''exam_trends'' (trends_of_response r)
         (w\<lparr>requests := Suc (requests w),
            pending := removeAll (requests w) (pending w),
            peak := max (peak w) (Suc (length (pending w))),
            events := events w @ [Issue (requests w), Settle (requests w)]\<rparr>))"
    by (simp add: trends_attempt_def await_generateContent_eq Let_def)
  then show "fst (searchGuangzhouExamTrends_000 P w) = Inr (trends_of_response r)
         \<and> ls (snd (searchGuangzhouExamTrends_000 P w)) ''cache_exam_trends''
            = Some (JSON_stringify P (trends_of_response r))
         \<and> ls (snd (searchGuangzhouExamTrends_000 P w)) ''trends_timestamp''
            = ls w ''trends_timestamp''"
    by (simp add: eq result_retry_2 final_retry_2 setCachedData_def)
qed

lemma trends_unstamped_facts:
  "ls world_trends_unstamped ''cache_exam_trends'' = Some (json_text trends_json)"
  "ls world_trends_unstamped ''trends_timestamp'' = None"
  "fst (searchGuangzhouExamTrends_000 (sample_platform search_service) world_trends_unstamped)
     = Inr trends_json"
  "requests world_trends_unstamped = 0"
  "requests (snd (searchGuangzhouExamTrends_000 (sample_platform search_service)
       world_trends_unstamped)) = 0"
  "requests (snd (searchGuangzhouExamTrends_000 (sample_platform search_service)
       (world_with []))) = 1"
  "ls (snd (searchGuangzhouExamTrends_000 (sample_platform search_service) (world_with [])))
     ''trends_timestamp'' = None"
  by code_simp+

text \<open>
  C4, as stated, fails for the version of part_000, which has no time stamp: with a
  search result cached and nothing under \<open>trends_timestamp\<close> it returns the cached
  result and issues no request; and after a successful query
  from an empty localStorage there is still nothing under \<open>trends_timestamp\<close>.
\<close>

theorem searchGuangzhouExamTrends_not_as_specified:
  "ls world_trends_unstamped ''cache_exam_trends'' = Some (json_text trends_json)
   \<and> ls world_trends_unstamped ''trends_timestamp'' = None
   \<and> fst (searchGuangzhouExamTrends_000 (sample_platform search_service) world_trends_unstamped)
       = Inr trends_json
   \<and> requests world_trends_unstamped = 0
   \<and> requests (snd (searchGuangzhouExamTrends_000 (sample_platform search_service)
       world_trends_unstamped)) = 0
   \<and> requests (snd (searchGuangzhouExamTrends_000 (sample_platform search_service)
       (world_with []))) = 1
   \<and> ls (snd (searchGuangzhouExamTrends_000 (sample_platform search_service) (world_with [])))
       ''trends_timestamp'' = None"
  using trends_unstamped_facts by blast

text \<open>
  C4, amended. Let the entry under \<open>cache_exam_trends\<close> be absent or parse, so that
  \<open>getCachedData\<close> returns a value \<open>cached\<close>. The version of part_001 issues no request
  if and only if \<open>cached\<close> is truthy and the text under \<open>trends_timestamp\<close> is not empty
  and \<open>parseInt\<close> reads from it a time less than 3600000 ms before \<open>Date.now()\<close>; it
  then returns \<open>cached\<close> and changes nothing. Otherwise it issues one request, and when
  that succeeds it returns the new result, which is by then the cache entry, with the
  time read after the response under \<open>trends_timestamp\<close>. The version of part_000
  issues no request if and only if \<open>cached\<close> is truthy, and then returns \<open>cached\<close> and
  changes nothing; otherwise it issues a request, and when the first request succeeds
  it returns the new result, which is by then the cache entry, and leaves
  \<open>trends_timestamp\<close> as it was.
\<close>

theorem searchGuangzhouExamTrends_cache:
  assumes "getCachedData P w ''exam_trends'' = Inr cached"
  shows
    "(\<forall>t. 0 \<le> t \<and> ls w ''trends_timestamp'' = Some (Number_toString t)
          \<longrightarrow> (timestamp_fresh w now \<longleftrightarrow> now - t < 3600000))
     \<and> (requests (snd (searchGuangzhouExamTrends_001 P now now_after w)) = requests w
        \<longleftrightarrow> truthy cached \<and> timestamp_fresh w now)
     \<and> (truthy cached \<and> timestamp_fresh w now
          \<longrightarrow> searchGuangzhouExamTrends_001 P now now_after w = (Inr cached, w))
     \<and> (\<not> (truthy cached \<and> timestamp_fresh w now)
          \<longrightarrow> requests (snd (searchGuangzhouExamTrends_001 P now now_after w)) = Suc (requests w)
            \<and> (\<forall>r. generateContent P (requests w) = Inr r \<longrightarrow>
                  fst (searchGuangzhouExamTrends_001 P now now_after w) = Inr (trends_of_response r)
                  \<and> ls (snd (searchGuangzhouExamTrends_001 P now now_after w)) ''cache_exam_trends''
                     = Some (JSON_stringify P (trends_of_response r))
                  \<and> ls (snd (searchGuangzhouExamTrends_001 P now now_after w)) ''trends_timestamp''
                     = Some (Number_toString now_after)))
     \<and> (requests (snd (searchGuangzhouExamTrends_000 P w)) = requests w \<longleftrightarrow> truthy cached)
     \<and> (truthy cached \<longrightarrow> searchGuangzhouExamTrends_000 P w = (Inr cached, w))
     \<and> (\<not> truthy cached
          \<longrightarrow> (\<forall>r. generateContent P (requests w) = Inr r \<longrightarrow>
                  fst (searchGuangzhouExamTrends_000 P w) = Inr (trends_of_response r)
                  \<and> ls (snd (searchGuangzhouExamTrends_000 P w)) ''cache_exam_trends''
                     = Some (JSON_stringify P (trends_of_response r))
                  \<and> ls (snd (searchGuangzhouExamTrends_000 P w)) ''trends_timestamp''
                     = ls w ''trends_timestamp''))"
proof -
  have a1: "truthy cached \<and> timestamp_fresh w now
      \<longrightarrow> searchGuangzhouExamTrends_001 P now now_after w = (Inr cached, w)"
    using trends_001_cached[OF assms] by blast
  have a2: "\<not> (truthy cached \<and> timestamp_fresh w now)
      \<longrightarrow> requests (snd (searchGuangzhouExamTrends_001 P now now_after w)) = Suc (requests w)
        \<and> (\<forall>r. generateContent P (requests w) = Inr r \<longrightarrow>
              fst (searchGuangzhouExamTrends_001 P now now_after w) = Inr (trends_of_response r)
              \<and> ls (snd (searchGuangzhouExamTrends_001 P now now_after w)) ''cache_exam_trends''
                 = Some (JSON_stringify P (trends_of_response r))
              \<and> ls (snd (searchGuangzhouExamTrends_001 P now now_after w)) ''trends_timestamp''
                 = Some (Number_toString now_after))"
    using trends_001_query[OF assms] by blast
  have a0: "requests (snd (searchGuangzhouExamTrends_001 P now now_after w)) = requests w
        \<longleftrightarrow> truthy cached \<and> timestamp_fresh w now"
  proof (cases "truthy cached \<and> timestamp_fresh w now")
    case True
    with a1 show ?thesis by simp
  next
    case False
    with a2 show ?thesis by simp
  qed
  have b1: "truthy cached \<longrightarrow> searchGuangzhouExamTrends_000 P w = (Inr cached, w)"
    using trends_000_cached[OF assms] by blast
  have b2: "\<not> truthy cached
      \<longrightarrow> (\<forall>r. generateContent P (requests w) = Inr r \<longrightarrow>
              fst (searchGuangzhouExamTrends_000 P w) = Inr (trends_of_response r)
              \<and> ls (snd (searchGuangzhouExamTrends_000 P w)) ''cache_exam_trends''
                 = Some (JSON_stringify P (trends_of_response r))
              \<and> ls (snd (searchGuangzhouExamTrends_000 P w)) ''trends_timestamp''
                 = ls w ''trends_timestamp'')"
    using trends_000_query(2)[OF assms] by blast
  have b0: "requests (snd (searchGuangzhouExamTrends_000 P w)) = requests w \<longleftrightarrow> truthy cached"
  proof (cases "truthy cached")
    case True
    with b1 show ?thesis by simp
  next
    case False
    with trends_000_query(1)[OF assms] show ?thesis by simp
  qed
  have ts: "\<forall>t. 0 \<le> t \<and> ls w ''trends_timestamp'' = Some (Number_toString t)
      \<longrightarrow> (timestamp_fresh w now \<longleftrightarrow> now - t < 3600000)"
    using timestamp_fresh_written by blast
  from ts a0 a1 a2 b0 b1 b2 show ?thesis by blast
qed

lemma trends_cached_facts:
  "getCachedData (sample_platform search_service) world_trends_cached ''exam_trends''
     = Inr trends_json"
  "truthy trends_json"
  "timestamp_fresh world_trends_cached 1730003599999"
  "\<not> timestamp_fresh world_trends_cached 1730003600000"
  "generateContent (sample_platform search_service) (requests world_trends_cached)
     = Inr search_response"
  "trends_of_response search_response = trends_json"
  "Number_toString 1730003600500 = ''1730003600500''"
  "(0::int) \<le> 1730000000000"
  "ls world_trends_cached ''trends_timestamp'' = Some (Number_toString 1730000000000)"
  "getCachedData (sample_platform search_service) (world_with []) ''exam_trends'' = Inr JNull"
  "\<not> truthy JNull"
  "generateContent (sample_platform search_service) (requests (world_with []))
     = Inr search_response"
  by code_simp+

text \<open>
  A search result cached at 1730000000000 ms is returned as it is 3599999 ms later; one
  millisecond after that the service is queried, and the time read after the response
  is stamped. With nothing cached the client of part_000 queries the service.
\<close>

theorem searchGuangzhouExamTrends_cache_witness:
  "getCachedData (sample_platform search_service) world_trends_cached ''exam_trends''
     = Inr trends_json
   \<and> truthy trends_json
   \<and> (0::int) \<le> 1730000000000
   \<and> ls world_trends_cached ''trends_timestamp'' = Some (Number_toString 1730000000000)
   \<and> timestamp_fresh world_trends_cached 1730003599999
   \<and> (1730003599999::int) - 1730000000000 < 3600000
   \<and> searchGuangzhouExamTrends_001 (sample_platform search_service) 1730003599999
        1730003600099 world_trends_cached = (Inr trends_json, world_trends_cached)
   \<and> searchGuangzhouExamTrends_000 (sample_platform search_service) world_trends_cached
       = (Inr trends_json, world_trends_cached)
   \<and> \<not> timestamp_fresh world_trends_cached 1730003600000
   \<and> generateContent (sample_platform search_service) (requests world_trends_cached)
       = Inr search_response
   \<and> fst (searchGuangzhouExamTrends_001 (sample_platform search_service) 1730003600000
        1730003600500 world_trends_cached) = Inr trends_json
   \<and> ls (snd (searchGuangzhouExamTrends_001 (sample_platform search_service) 1730003600000
        1730003600500 world_trends_cached)) ''trends_timestamp'' = Some ''1730003600500''
   \<and> getCachedData (sample_platform search_service) (world_with []) ''exam_trends'' = Inr JNull
   \<and> \<not> truthy JNull
   \<and> generateContent (sample_platform search_service) (requests (world_with []))
       = Inr search_response
   \<and> fst (searchGuangzhouExamTrends_000 (sample_platform search_service) (world_with []))
       = Inr trends_json"
proof -
  note f = trends_cached_facts
  note t1 = searchGuangzhouExamTrends_cache[OF f(1), of 1730003599999 1730003600099]
  note t2 = searchGuangzhouExamTrends_cache[OF f(1), of 1730003600000 1730003600500]
  note t3 = searchGuangzhouExamTrends_cache[OF f(10), of 0 0]
  have a: "searchGuangzhouExamTrends_001 (sample_platform search_service) 1730003599999
        1730003600099 world_trends_cached = (Inr trends_json, world_trends_cached)"
    using t1 f(2) f(3) by blast
  have b: "searchGuangzhouExamTrends_000 (sample_platform search_service) world_trends_cached
       = (Inr trends_json, world_trends_cached)"
    using t1 f(2) by blast
  have c: "fst (searchGuangzhouExamTrends_001 (sample_platform search_service) 1730003600000
        1730003600500 world_trends_cached) = Inr (trends_of_response search_response)
     \<and> ls (snd (searchGuangzhouExamTrends_001 (sample_platform search_service) 1730003600000
        1730003600500 world_trends_cached)) ''trends_timestamp''
        = Some (Number_toString 1730003600500)"
    using t2 f(4) f(5) by blast
  have d: "(1730003599999::int) - 1730000000000 < 3600000"
    using t1 f(8) f(9) f(3) by blast
  have e: "fst (searchGuangzhouExamTrends_000 (sample_platform search_service) (world_with []))
       = Inr (trends_of_response search_response)"
    using t3 f(11) f(12) by blast
  from f a b c d e show ?thesis by simp
qed

section \<open>Properties of the handlers\<close>

lemma markCompleted_completed:
  "session_completed (markCompleted lesson se) =
     (if user se \<noteq> None \<and> lesson_id lesson \<notin> set (session_completed se)
      then session_completed se @ [lesson_id lesson] else session_completed se)"
  by (simp add: markCompleted_def session_completed_def saveUserProgress_def
      split: option.splits)

lemma handleReview_002_sess:
  "sess (fst (snd (handleReview_002 S P lesson (st, w)))) =
     (if fst (handleReview_002 S P lesson (st, w)) = None
      then markCompleted lesson (sess st) else sess st)"
  by (simp add: handleReview_002_def Let_def split: option.splits sum.splits prod.splits)

lemma handleReview_003_sess:
  "sess (fst (snd (handleReview_003 S P lesson (st, w)))) =
     (if fst (handleReview_003 S P lesson (st, w)) = None
      then markCompleted lesson (sess st) else sess st)"
  by (simp add: handleReview_003_def Let_def split: option.splits sum.splits prod.splits)

lemma handleStartPractice_002_sess:
  "sess (fst (snd (handleStartPractice_002 S P lesson forceNew (st, w)))) = sess st"
  by (simp add: handleStartPractice_002_def Let_def split: option.splits sum.splits prod.splits)

lemma handleStartPractice_003_sess:
  "sess (fst (snd (handleStartPractice_003 S P lesson forceNew (st, w)))) = sess st"
  by (simp add: handleStartPractice_003_def Let_def split: option.splits sum.splits prod.splits)

lemma calculateScore_003_completed:
  "session_completed (session_after (calculateScore_003 qs ua sl se)) = session_completed se"
  by (simp add: calculateScore_003_def session_completed_def saveUserProgress_def Let_def
      split: prod.splits option.splits)

lemma calculateScore_002_completed:
  "session_completed (session_after (calculateScore_002 qs ua sl se)) = session_completed se"
  by (simp add: calculateScore_002_def session_completed_def saveUserProgress_def Let_def
      split: prod.splits option.splits)

lemma clearWrongQuestion_completed:
  "session_completed (clearWrongQuestion i se) = session_completed se"
  by (simp add: clearWrongQuestion_def session_completed_def saveUserProgress_def
      split: option.splits)

lemma step_002_completed:
  "completed (step_002 S P a s) = completed s
   \<or> (\<exists>i. i \<notin> set (completed s) \<and> completed (step_002 S P a s) = completed s @ [i])"
proof -
  obtain st w where s: "s = (st, w)" by (cases s)
  show ?thesis
  proof (cases a)
    case (Review lesson)
    then show ?thesis
      by (simp add: s completed_def handleReview_002_sess markCompleted_completed)
  next
    case (StartPractice lesson forceNew)
    then show ?thesis by (simp add: s completed_def handleStartPractice_002_sess)
  next
    case (Answer i letter)
    then show ?thesis by (simp add: s completed_def)
  next
    case (Submit qs)
    then show ?thesis by (simp add: s completed_def Let_def calculateScore_002_completed)
  next
    case (ClearWrong i)
    then show ?thesis by (simp add: s completed_def clearWrongQuestion_completed)
  qed
qed

lemma step_003_completed:
  "completed (step_003 S P a s) = completed s
   \<or> (\<exists>i. i \<notin> set (completed s) \<and> completed (step_003 S P a s) = completed s @ [i])"
proof -
  obtain st w where s: "s = (st, w)" by (cases s)
  show ?thesis
  proof (cases a)
    case (Review lesson)
    then show ?thesis
      by (simp add: s completed_def handleReview_003_sess markCompleted_completed)
  next
    case (StartPractice lesson forceNew)
    then show ?thesis by (simp add: s completed_def handleStartPractice_003_sess)
  next
    case (Answer i letter)
    then show ?thesis by (simp add: s completed_def)
  next
    case (Submit qs)
    then show ?thesis by (simp add: s completed_def Let_def calculateScore_003_completed)
  next
    case (ClearWrong i)
    then show ?thesis by (simp add: s completed_def clearWrongQuestion_completed)
  qed
qed

lemma run_actions_completed:
  assumes step: "\<And>a s. completed (step a s) = completed s
      \<or> (\<exists>i. i \<notin> set (completed s) \<and> completed (step a s) = completed s @ [i])"
    and "distinct (completed s)"
  shows "distinct (completed (run_actions step acts s))
     \<and> prefix (completed s) (completed (run_actions step acts s))"
  using assms(2)
proof (induction acts arbitrary: s)
  case Nil
  then show ?case by simp
next
  case (Cons a acts)
  from step[of a s] have d: "distinct (completed (step a s))"
    and p: "prefix (completed s) (completed (step a s))"
    using Cons.prems by auto
  from Cons.IH[OF d] have "distinct (completed (run_actions step acts (step a s)))"
    and "prefix (completed (step a s)) (completed (run_actions step acts (step a s)))"
    by blast+
  with p show ?case by (auto intro: prefix_order.trans)
qed

text \<open>
  C10. From a state whose list of completed lessons has no duplicates, any run of
  actions (opening lessons, starting practices, answering, submitting, clearing wrong
  questions) on either version of the component, with any client, leaves a list
  without duplicates of which the old list is a prefix. A \<open>handleReview\<close> that ends
  without an uncaught error appends the lesson's id exactly when a user is logged in
  and the id is not in the list, and changes nothing in the list otherwise; one that
  ends with an uncaught error leaves the list alone. A login starts from the empty
  list, and after a logout nothing is left.
\<close>

theorem completedLessons_distinct_grow:
  assumes "distinct (completed s)"
  shows
    "distinct (completed (run_actions (step_002 S P) acts s))
     \<and> prefix (completed s) (completed (run_actions (step_002 S P) acts s))
     \<and> distinct (completed (run_actions (step_003 S P) acts s))
     \<and> prefix (completed s) (completed (run_actions (step_003 S P) acts s))
     \<and> completed (snd (handleReview_002 S P lesson s)) =
         (if fst (handleReview_002 S P lesson s) = None \<and> user (sess (fst s)) \<noteq> None
             \<and> lesson_id lesson \<notin> set (completed s)
          then completed s @ [lesson_id lesson] else completed s)
     \<and> completed (snd (handleReview_003 S P lesson s)) =
         (if fst (handleReview_003 S P lesson s) = None \<and> user (sess (fst s)) \<noteq> None
             \<and> lesson_id lesson \<notin> set (completed s)
          then completed s @ [lesson_id lesson] else completed s)
     \<and> (js_trim loginName \<noteq> [] \<longrightarrow> session_completed (handleLogin loginName now isoDate se) = [])
     \<and> session_completed (logout se) = []"
proof -
  obtain st w where s: "s = (st, w)" by (cases s)
  have r2: "distinct (completed (run_actions (step_002 S P) acts s))
     \<and> prefix (completed s) (completed (run_actions (step_002 S P) acts s))"
    using run_actions_completed[of "step_002 S P", OF step_002_completed assms] .
  have r3: "distinct (completed (run_actions (step_003 S P) acts s))
     \<and> prefix (completed s) (completed (run_actions (step_003 S P) acts s))"
    using run_actions_completed[of "step_003 S P", OF step_003_completed assms] .
  have h2: "completed (snd (handleReview_002 S P lesson s)) =
         (if fst (handleReview_002 S P lesson s) = None \<and> user (sess (fst s)) \<noteq> None
             \<and> lesson_id lesson \<notin> set (completed s)
          then completed s @ [lesson_id lesson] else completed s)"
    by (simp add: s completed_def handleReview_002_sess markCompleted_completed)
  have h3: "completed (snd (handleReview_003 S P lesson s)) =
         (if fst (handleReview_003 S P lesson s) = None \<and> user (sess (fst s)) \<noteq> None
             \<and> lesson_id lesson \<notin> set (completed s)
          then completed s @ [lesson_id lesson] else completed s)"
    by (simp add: s completed_def handleReview_003_sess markCompleted_completed)
  have li: "js_trim loginName \<noteq> [] \<longrightarrow> session_completed (handleLogin loginName now isoDate se) = []"
    by (simp add: handleLogin_def session_completed_def saveUserProgress_def)
  have lo: "session_completed (logout se) = []"
    by (simp add: logout_def session_completed_def)
  from r2 r3 h2 h3 li lo show ?thesis by blast
qed

lemma ui_0_completed:
  "distinct (completed (ui_0, world_with []))"
  "completed (ui_0, world_with []) = [1, 2]"
  "completed (run_actions
      (step_002 (service_000 (sample_platform questions_service))
         (sample_platform questions_service))
      [Review lesson_3, Review lesson_1, Submit (quiz_of 2), Review lesson_3]
      (ui_0, world_with [])) = [1, 2, 3]"
  "js_trim ''student'' \<noteq> []"
  "fst (handleReview_003 (service_001 (sample_platform questions_service) 0 0)
     (sample_platform questions_service) lesson_3 (ui_0, world_with [])) = None"
  "user (sess (fst (ui_0, world_with []))) \<noteq> None"
  "lesson_id lesson_3 \<notin> set (completed (ui_0, world_with []))"
  by code_simp+

text \<open>
  The user of \<open>session_0\<close> has read lessons 1 and 2 and now opens lesson 3, lesson 1,
  submits a quiz and opens lesson 3 again: the list becomes 1, 2, 3. A login starts with
  the empty list.
\<close>

theorem completedLessons_distinct_grow_witness:
  "distinct (completed (ui_0, world_with []))
   \<and> completed (ui_0, world_with []) = [1, 2]
   \<and> completed (run_actions
        (step_002 (service_000 (sample_platform questions_service))
           (sample_platform questions_service))
        [Review lesson_3, Review lesson_1, Submit (quiz_of 2), Review lesson_3]
        (ui_0, world_with [])) = [1, 2, 3]
   \<and> distinct (completed (run_actions
        (step_002 (service_000 (sample_platform questions_service))
           (sample_platform questions_service))
        [Review lesson_3, Review lesson_1, Submit (quiz_of 2), Review lesson_3]
        (ui_0, world_with [])))
   \<and> fst (handleReview_003 (service_001 (sample_platform questions_service) 0 0)
        (sample_platform questions_service) lesson_3 (ui_0, world_with [])) = None
   \<and> user (sess (fst (ui_0, world_with []))) \<noteq> None
   \<and> lesson_id lesson_3 \<notin> set (completed (ui_0, world_with []))
   \<and> completed (snd (handleReview_003 (service_001 (sample_platform questions_service) 0 0)
        (sample_platform questions_service) lesson_3 (ui_0, world_with [])))
      = completed (ui_0, world_with []) @ [lesson_id lesson_3]
   \<and> js_trim ''student'' \<noteq> []
   \<and> session_completed (handleLogin ''student'' 1730000000000 ''2024-10-27T03:33:20.000Z''
        no_session) = []"
proof -
  note f = ui_0_completed
  note t1 = completedLessons_distinct_grow[OF f(1),
      of "service_000 (sample_platform questions_service)" "sample_platform questions_service"
        "[Review lesson_3, Review lesson_1, Submit (quiz_of 2), Review lesson_3]"
        lesson_3 "''student''" 1730000000000 "''2024-10-27T03:33:20.000Z''" no_session]
  note t2 = completedLessons_distinct_grow[OF f(1),
      of "service_001 (sample_platform questions_service) 0 0"
        "sample_platform questions_service" "[]"
        lesson_3 "''student''" 1730000000000 "''2024-10-27T03:33:20.000Z''" no_session]
  have a: "distinct (completed (run_actions
        (step_002 (service_000 (sample_platform questions_service))
           (sample_platform questions_service))
        [Review lesson_3, Review lesson_1, Submit (quiz_of 2), Review lesson_3]
        (ui_0, world_with [])))"
    using t1 by blast
  have b: "session_completed (handleLogin ''student'' 1730000000000 ''2024-10-27T03:33:20.000Z''
        no_session) = []"
    using t1 f(4) by blast
  have c: "completed (snd (handleReview_003 (service_001 (sample_platform questions_service) 0 0)
        (sample_platform questions_service) lesson_3 (ui_0, world_with [])))
      = (if fst (handleReview_003 (service_001 (sample_platform questions_service) 0 0)
              (sample_platform questions_service) lesson_3 (ui_0, world_with [])) = None
            \<and> user (sess (fst (ui_0, world_with []))) \<noteq> None
            \<and> lesson_id lesson_3 \<notin> set (completed (ui_0, world_with []))
         then completed (ui_0, world_with []) @ [lesson_id lesson_3]
         else completed (ui_0, world_with []))"
    using t2 by blast
  have c': "completed (snd (handleReview_003 (service_001 (sample_platform questions_service) 0 0)
        (sample_platform questions_service) lesson_3 (ui_0, world_with [])))
      = completed (ui_0, world_with []) @ [lesson_id lesson_3]"
    using c f(5) f(6) f(7) by (simp only: simp_thms if_True)
  from f a b c' show ?thesis by blast
qed

section \<open>Errors that reach the handlers\<close>

text \<open>
  Whatever the client does, a handler lets an error escape only when it parses a cached
  text itself, outside its \<open>try\<close>: with \<open>forceNew\<close>, or with no text or a well-formed
  text under the cache key, nothing escapes; the trends handlers let nothing escape.
\<close>

lemma handleStartPractice_catches:
  assumes "forceNew \<or>
     (case truthy_item w (''cache_questions_lesson_'' @ Number_toString (lesson_id lesson)) of
        None \<Rightarrow> True
      | Some cachedQs \<Rightarrow> (\<exists>qs. JSON_parse P cachedQs = Inr qs))"
  shows "fst (handleStartPractice_002 S P lesson forceNew (st, w)) = None"
    and "fst (handleStartPractice_003 S P lesson forceNew (st, w)) = None"
  using assms
  by (auto simp add: handleStartPractice_002_def handleStartPractice_003_def Let_def
      split: option.splits sum.splits prod.splits)

lemma handleReview_catches:
  assumes "case truthy_item w (''cache_mindmap_lesson_'' @ Number_toString (lesson_id lesson)) of
        None \<Rightarrow> True
      | Some cachedMM \<Rightarrow> (\<exists>mm. JSON_parse P cachedMM = Inr mm)"
  shows "fst (handleReview_002 S P lesson (st, w)) = None"
    and "fst (handleReview_003 S P lesson (st, w)) = None"
  using assms
  by (auto simp add: handleReview_002_def handleReview_003_def Let_def
      split: option.splits sum.splits prod.splits)

lemma trendsClick_catches:
  "fst (trendsClick_002 S (st, w)) = None"
  "fst (trendsClick_003 S (st, w)) = None"
  by (simp_all add: trendsClick_002_def trendsClick_003_def split: sum.splits prod.splits)

lemma malformed_cache_facts:
  "ls (world_with [(''cache_questions_lesson_1'', ''{'')]) ''cache_questions_lesson_1''
     = Some ''{''"
  "JSON_parse (sample_platform questions_service) ''{'' = Inl syntax_error"
  "fst (handleStartPractice_002 (service_000 (sample_platform questions_service))
          (sample_platform questions_service) lesson_1 False
          (ui_0, world_with [(''cache_questions_lesson_1'', ''{'')])) = Some syntax_error"
  "fst (handleStartPractice_003 (service_001 (sample_platform questions_service) 0 0)
          (sample_platform questions_service) lesson_1 False
          (ui_0, world_with [(''cache_questions_lesson_1'', ''{'')])) = Some syntax_error"
  "fst (handleReview_002 (service_000 (sample_platform questions_service))
          (sample_platform questions_service) lesson_1
          (ui_0, world_with [(''cache_mindmap_lesson_1'', ''{'')])) = Some syntax_error"
  "fst (handleReview_003 (service_001 (sample_platform questions_service) 0 0)
          (sample_platform questions_service) lesson_1
          (ui_0, world_with [(''cache_mindmap_lesson_1'', ''{'')])) = Some syntax_error"
  by code_simp+

text \<open>
  C5 on a malformed cache entry. With the text \<open>{\<close> under \<open>cache_questions_lesson_1\<close>,
  \<open>handleStartPractice\<close> for lesson 1 ends with the SyntaxError of \<open>JSON.parse\<close>
  uncaught, in both versions of the component; so does \<open>handleReview\<close> with that text
  under \<open>cache_mindmap_lesson_1\<close>.
\<close>

theorem malformed_cache_escapes_handlers:
  "ls (world_with [(''cache_questions_lesson_1'', ''{'')]) ''cache_questions_lesson_1''
     = Some ''{''
   \<and> JSON_parse (sample_platform questions_service) ''{'' = Inl syntax_error
   \<and> fst (handleStartPractice_002 (service_000 (sample_platform questions_service))
          (sample_platform questions_service) lesson_1 False
          (ui_0, world_with [(''cache_questions_lesson_1'', ''{'')])) = Some syntax_error
   \<and> fst (handleStartPractice_003 (service_001 (sample_platform questions_service) 0 0)
          (sample_platform questions_service) lesson_1 False
          (ui_0, world_with [(''cache_questions_lesson_1'', ''{'')])) = Some syntax_error
   \<and> fst (handleReview_002 (service_000 (sample_platform questions_service))
          (sample_platform questions_service) lesson_1
          (ui_0, world_with [(''cache_mindmap_lesson_1'', ''{'')])) = Some syntax_error
   \<and> fst (handleReview_003 (service_001 (sample_platform questions_service) 0 0)
          (sample_platform questions_service) lesson_1
          (ui_0, world_with [(''cache_mindmap_lesson_1'', ''{'')])) = Some syntax_error"
  using malformed_cache_facts by blast

section \<open>Requests in flight\<close>





















text \<open>
  The beginning of a client function of part_000 is the beginning of the whole
  function: what it returns without a request the whole function returns, and the
  request it is suspended on is the one the first attempt of the whole function awaits.
\<close>

lemma begin_000_questions:
  "generateQuestionsFromContent_000_begin P w i c f = (Returned r, w1)
   \<Longrightarrow> generateQuestionsFromContent_000 P w i c f = (r, w1)"
  "generateQuestionsFromContent_000_begin P w i c f = (Suspended n, w1)
   \<Longrightarrow> n = requests w \<and> w1 = snd (issue_request w)
     \<and> fst (questions_attempt P (''questions_lesson_'' @ Number_toString i) w)
         = (case generateContent P n of
              Inl e \<Rightarrow> Inl e
            | Inr rsp \<Rightarrow> fst (questions_of_response P (''questions_lesson_'' @ Number_toString i)
                              rsp (settle_request n w1)))
     \<and> generateQuestionsFromContent_000 P w i c f
         = (result (retryWithBackoff
                      (questions_attempt P (''questions_lesson_'' @ Number_toString i)) 2 w),
            final (retryWithBackoff
                      (questions_attempt P (''questions_lesson_'' @ Number_toString i)) 2 w))"
  by (auto simp add: generateQuestionsFromContent_000_begin_def
      generateQuestionsFromContent_000_def questions_attempt_def await_generateContent_def
      issue_request_def Let_def split: sum.splits if_splits prod.splits)

lemma begin_000_mindmap:
  "generateStudyMindmap_000_begin P w i c = (Returned r, w1)
   \<Longrightarrow> generateStudyMindmap_000 P w i c = (r, w1)"
  "generateStudyMindmap_000_begin P w i c = (Suspended n, w1)
   \<Longrightarrow> n = requests w \<and> w1 = snd (issue_request w)
     \<and> generateStudyMindmap_000 P w i c
         = (result (retryWithBackoff
                      (mindmap_attempt P (''mindmap_lesson_'' @ Number_toString i)) 2 w),
            final (retryWithBackoff
                      (mindmap_attempt P (''mindmap_lesson_'' @ Number_toString i)) 2 w))"
  by (auto simp add: generateStudyMindmap_000_begin_def generateStudyMindmap_000_def
      issue_request_def Let_def split: sum.splits if_splits prod.splits)





lemma prefetch_queue_grows:
  "prefetchQueue (fst (snd (prefetchLessonData_003 B lesson (st, w))))
     = insert (lesson_id lesson) (prefetchQueue st)"
  by (auto simp add: prefetchLessonData_003_def Let_def split: prod.splits)









end
